theory Spec2Isabelle
  imports Main
begin

text \<open>
  A shallow embedding of the Go package \<^verbatim>\<open>odoo\<close>: the configuration loader
  (\<^verbatim>\<open>LoadConfig\<close>, \<^verbatim>\<open>NewConnectorFromConfig\<close>) and the connector of \<^verbatim>\<open>connector.go\<close>
  (\<^verbatim>\<open>NewConnector\<close> and the five record operations), which talks XML-RPC through
  \<^verbatim>\<open>github.com/kolo/xmlrpc\<close>. The operating system, the JSON decoder, the XML-RPC client
  and the logger are not part of the package; they are parameters of the model, and every
  use of them is recorded in a trace.
\<close>

section \<open>Go values crossing the remote-call boundary\<close>

text \<open>
  The connector hands \<^verbatim>\<open>interface{}\<close> values to the XML-RPC client and gets such values
  back. \<open>val\<close> is the universe of those dynamic values, one constructor per Go type the
  package builds or passes through. Slices and maps are reference types in Go, so each
  carries an \<open>option\<close>: \<open>None\<close> is the nil slice or nil map, \<open>Some []\<close> the empty one.
  A map is kept as an association list whose keys stand in the order of the Go literal.
  Go's \<^verbatim>\<open>int\<close> and \<^verbatim>\<open>int64\<close> are modelled by \<open>int\<close>: the package only stores, compares
  with zero and prints them, it never does arithmetic on them.
\<close>

datatype val =
    VNil
  | VString string
  | VInt int
  | VInt64 int
  | VBool bool
  | VOpaque string
  | VStrings "string list option"
  | VInt64s "int list option"
  | VSlice "val list option"
  | VMap "(string \<times> val) list option"
  | VStringMap "(string \<times> string) list option"
  | VRecords "(string \<times> val) list list option"

type_synonym gomap = "(string \<times> val) list option"
type_synonym goslice = "val list option"
type_synonym records = "(string \<times> val) list list option"

section \<open>Errors\<close>

text \<open>
  A Go \<^verbatim>\<open>error\<close> is a message with an optional wrapped cause.
  \<open>Errorf msg\<close> is \<^verbatim>\<open>fmt.Errorf(msg)\<close> without a \<^verbatim>\<open>%w\<close> verb;
  \<open>Wrapf prefix err\<close> is \<^verbatim>\<open>fmt.Errorf(prefix + "%w", err)\<close>.
  The nil error is \<open>None :: error option\<close>.
\<close>

datatype error = Errorf string | Wrapf string error

fun Error :: "error \<Rightarrow> string" where
  "Error (Errorf msg) = msg"
| "Error (Wrapf prefix err) = prefix @ Error err"

fun Unwrap :: "error \<Rightarrow> error option" where
  "Unwrap (Errorf msg) = None"
| "Unwrap (Wrapf prefix err) = Some err"

text \<open>The \<^verbatim>\<open>%d\<close> verb: decimal digits, with a leading minus sign for a negative number.\<close>

definition digit_char :: "nat \<Rightarrow> char" where
  "digit_char d = char_of (48 + d)"

fun digits :: "nat \<Rightarrow> string" where
  "digits n = (if n < 10 then [digit_char n] else digits (n div 10) @ [digit_char (n mod 10)])"

declare digits.simps [simp del]

definition fmt_d :: "int \<Rightarrow> string" where
  "fmt_d i = (if i < 0 then CHR ''-'' # digits (nat (- i)) else digits (nat i))"

section \<open>Data model of the package\<close>

type_synonym client = nat
type_synonym transport = nat

record Config =
  URL :: string
  Username :: string
  APIKey :: string
  DB :: string

record Connector =
  URL :: string
  Username :: string
  APIKey :: string
  DB :: string
  UID :: int
  common :: "client option"
  models :: "client option"

record SearchReadOptions =
  Fields :: "string list option"
  Domain :: goslice
  Offset :: int
  Limit :: int
  Order :: string

section \<open>The outside world: file system, JSON decoder, XML-RPC library, logger\<close>

text \<open>
  Everything the package does outside its own code is an event appended to a trace.
  A \<open>transport\<close> is the address of an \<^verbatim>\<open>http.Transport\<close> object, a \<open>client\<close> the
  address of an \<^verbatim>\<open>xmlrpc.Client\<close>.
\<close>

datatype event =
    ReadFile_ev string
  | NewClient_ev string transport
  | Call_ev client string "val list"
  | Log_ev string

record world =
  trace :: "event list"
  transports :: nat

text \<open>
  The libraries are parameters. Each answer may depend on everything that happened
  before (the trace), so a server with state is covered. \<^verbatim>\<open>Call\<close> decodes the reply
  into the variable it is given; there is one field per type of reply variable used
  in the package (\<^verbatim>\<open>int\<close>, \<^verbatim>\<open>int64\<close>, \<^verbatim>\<open>bool\<close>, \<^verbatim>\<open>[]map[string]interface{}\<close>,
  \<^verbatim>\<open>interface{}\<close>), returning the error or the decoded value.
\<close>

record env =
  os_ReadFile :: "event list \<Rightarrow> string \<Rightarrow> error + string"
  json_Unmarshal :: "string \<Rightarrow> error + Config"
  xmlrpc_NewClient :: "event list \<Rightarrow> string \<Rightarrow> transport \<Rightarrow> error + client"
  Call_int :: "event list \<Rightarrow> client \<Rightarrow> string \<Rightarrow> val list \<Rightarrow> error + int"
  Call_int64 :: "event list \<Rightarrow> client \<Rightarrow> string \<Rightarrow> val list \<Rightarrow> error + int"
  Call_bool :: "event list \<Rightarrow> client \<Rightarrow> string \<Rightarrow> val list \<Rightarrow> error + bool"
  Call_records :: "event list \<Rightarrow> client \<Rightarrow> string \<Rightarrow> val list \<Rightarrow> error + records"
  Call_any :: "event list \<Rightarrow> client \<Rightarrow> string \<Rightarrow> val list \<Rightarrow> error + val"

definition emit :: "event \<Rightarrow> world \<Rightarrow> world" where
  "emit ev w = w\<lparr>trace := trace w @ [ev]\<rparr>"

definition ReadFile :: "env \<Rightarrow> string \<Rightarrow> world \<Rightarrow> (error + string) \<times> world" where
  "ReadFile E path w = (os_ReadFile E (trace w) path, emit (ReadFile_ev path) w)"

definition new_Transport :: "world \<Rightarrow> transport \<times> world" where
  "new_Transport w = (transports w, w\<lparr>transports := Suc (transports w)\<rparr>)"

definition NewClient :: "env \<Rightarrow> string \<Rightarrow> transport \<Rightarrow> world \<Rightarrow> (error + client) \<times> world" where
  "NewClient E url t w = (xmlrpc_NewClient E (trace w) url t, emit (NewClient_ev url t) w)"

definition log_Printf :: "string \<Rightarrow> world \<Rightarrow> world" where
  "log_Printf s w = emit (Log_ev s) w"

text \<open>
  A method call through a nil \<^verbatim>\<open>*xmlrpc.Client\<close> is a nil pointer dereference: the
  program panics. Every operation that calls through a handle therefore has an outcome.
\<close>

datatype 'a outcome = Panic | Return 'a

definition Call ::
  "(event list \<Rightarrow> client \<Rightarrow> string \<Rightarrow> val list \<Rightarrow> error + 'r) \<Rightarrow> client option \<Rightarrow> string \<Rightarrow>
     val list \<Rightarrow> world \<Rightarrow> ((error + 'r) \<times> world) outcome" where
  "Call reply handle serviceMethod args w =
     (case handle of
        None \<Rightarrow> Panic
      | Some cl \<Rightarrow> Return (reply (trace w) cl serviceMethod args,
                          emit (Call_ev cl serviceMethod args) w))"

section \<open>Configuration loading\<close>

text \<open>
  \<^verbatim>\<open>LoadConfig\<close> returns the Go pair \<^verbatim>\<open>(*Config, error)\<close>: a nil pointer is \<open>None\<close>,
  a nil error is \<open>None\<close>.
\<close>

definition LoadConfig ::
  "env \<Rightarrow> string \<Rightarrow> world \<Rightarrow> (Config option \<times> error option) \<times> world" where
  "LoadConfig E path w =
     (let (rd, w1) = ReadFile E path w in
      case rd of
        Inl err \<Rightarrow> ((None, Some (Wrapf ''failed to read config file: '' err)), w1)
      | Inr data \<Rightarrow>
          (case json_Unmarshal E data of
             Inl err \<Rightarrow> ((None, Some (Wrapf ''failed to parse config file: '' err)), w1)
           | Inr config \<Rightarrow>
               if Config.URL config = [] then
                 ((None, Some (Errorf ''URL is required in config'')), w1)
               else if Config.Username config = [] then
                 ((None, Some (Errorf ''username is required in config'')), w1)
               else if Config.APIKey config = [] then
                 ((None, Some (Errorf ''API key is required in config'')), w1)
               else if Config.DB config = [] then
                 ((None, Some (Errorf ''database name is required in config'')), w1)
               else ((Some config, None), w1)))"

section \<open>Connector construction\<close>

definition NewConnector ::
  "env \<Rightarrow> string \<Rightarrow> string \<Rightarrow> string \<Rightarrow> string \<Rightarrow> world \<Rightarrow>
     ((Connector option \<times> error option) \<times> world) outcome" where
  "NewConnector E url username apiKey db w =
     (let c = \<lparr>URL = url, Username = username, APIKey = apiKey, DB = db, UID = 0,
               common = None, models = None\<rparr>;
          (transport, w1) = new_Transport w;
          (r1, w2) = NewClient E (url @ ''/xmlrpc/2/common'') transport w1
      in case r1 of
           Inl err \<Rightarrow>
             Return ((None, Some (Wrapf ''failed to connect to common endpoint: '' err)), w2)
         | Inr cl1 \<Rightarrow>
            (let c = c\<lparr>common := Some cl1\<rparr>;
                 (r2, w3) = NewClient E (url @ ''/xmlrpc/2/object'') transport w2
             in case r2 of
                  Inl err \<Rightarrow>
                    Return ((None, Some (Wrapf ''failed to connect to models endpoint: '' err)), w3)
                | Inr cl2 \<Rightarrow>
                   (let c = c\<lparr>models := Some cl2\<rparr> in
                    case Call (Call_int E) (common c) ''authenticate''
                           [VString db, VString username, VString apiKey, VStringMap (Some [])] w3 of
                      Panic \<Rightarrow> Panic
                    | Return (Inl err, w4) \<Rightarrow>
                        Return ((None, Some (Wrapf ''authentication failed: '' err)), w4)
                    | Return (Inr uid, w4) \<Rightarrow>
                        if uid = 0 then
                          Return ((None, Some (Errorf ''authentication failed: invalid credentials'')), w4)
                        else
                          (let c = c\<lparr>UID := uid\<rparr>;
                               w5 = log_Printf (''Successfully initialized Odoo connector with UID: ''
                                                 @ fmt_d uid) w4
                           in Return ((Some c, None), w5)))))"

definition NewConnectorFromConfig ::
  "env \<Rightarrow> string \<Rightarrow> world \<Rightarrow> ((Connector option \<times> error option) \<times> world) outcome" where
  "NewConnectorFromConfig E configPath w =
     (let ((config, err), w1) = LoadConfig E configPath w in
      if err \<noteq> None then Return ((None, err), w1)
      else case config of
             None \<Rightarrow> Panic
           | Some cfg \<Rightarrow>
               NewConnector E (Config.URL cfg) (Config.Username cfg) (Config.APIKey cfg)
                 (Config.DB cfg) w1)"

section \<open>Record operations\<close>

text \<open>
  The methods have a pointer receiver, so each returns the Connector as it is after the
  call, next to the Go return values and the world. The receiver itself is taken to be
  a non-nil pointer. The Go parameter \<^verbatim>\<open>id\<close> is written \<open>rid\<close>, since \<open>id\<close> is the
  identity function of HOL.
\<close>

definition SearchReadRecords ::
  "env \<Rightarrow> Connector \<Rightarrow> string \<Rightarrow> SearchReadOptions \<Rightarrow> world \<Rightarrow>
     ((records \<times> error option) \<times> Connector \<times> world) outcome" where
  "SearchReadRecords E c model opts0 w =
     (let opts = (if Domain opts0 = None then opts0\<lparr>Domain := Some []\<rparr> else opts0);
          params = [(''fields'', VStrings (Fields opts)),
                    (''offset'', VInt (Offset opts)),
                    (''limit'', VInt (Limit opts)),
                    (''order'', VString (Order opts))]
      in case Call (Call_records E) (models c) ''execute_kw''
                [VString (DB c), VInt (UID c), VString (APIKey c),
                 VString model, VString ''search_read'',
                 VSlice (Some [VSlice (Domain opts)]),
                 VMap (Some params)] w of
           Panic \<Rightarrow> Panic
         | Return (Inl err, w1) \<Rightarrow>
             Return ((None, Some (Wrapf (''search_read failed for model '' @ model @ '': '') err)),
                     c, w1)
         | Return (Inr result, w1) \<Rightarrow> Return ((result, None), c, w1))"

definition CreateRecord ::
  "env \<Rightarrow> Connector \<Rightarrow> string \<Rightarrow> gomap \<Rightarrow> world \<Rightarrow>
     ((int \<times> error option) \<times> Connector \<times> world) outcome" where
  "CreateRecord E c model values w =
     (case Call (Call_int64 E) (models c) ''execute_kw''
             [VString (DB c), VInt (UID c), VString (APIKey c),
              VString model, VString ''create'',
              VSlice (Some [VMap values])] w of
        Panic \<Rightarrow> Panic
      | Return (Inl err, w1) \<Rightarrow>
          Return ((0, Some (Wrapf (''create failed for model '' @ model @ '': '') err)), c, w1)
      | Return (Inr rid, w1) \<Rightarrow> Return ((rid, None), c, w1))"

definition UpdateRecord ::
  "env \<Rightarrow> Connector \<Rightarrow> string \<Rightarrow> int \<Rightarrow> gomap \<Rightarrow> world \<Rightarrow>
     (error option \<times> Connector \<times> world) outcome" where
  "UpdateRecord E c model rid values w =
     (case Call (Call_bool E) (models c) ''execute_kw''
             [VString (DB c), VInt (UID c), VString (APIKey c),
              VString model, VString ''write'',
              VSlice (Some [VInt64s (Some [rid]), VMap values])] w of
        Panic \<Rightarrow> Panic
      | Return (Inl err, w1) \<Rightarrow>
          Return (Some (Wrapf (''update failed for model '' @ model @ '' with id '' @ fmt_d rid
                               @ '': '') err), c, w1)
      | Return (Inr result, w1) \<Rightarrow>
          if \<not> result then
            Return (Some (Errorf (''update failed for model '' @ model @ '' with id '' @ fmt_d rid
                                  @ '': no record updated'')), c, w1)
          else Return (None, c, w1))"

definition DeleteRecord ::
  "env \<Rightarrow> Connector \<Rightarrow> string \<Rightarrow> int \<Rightarrow> world \<Rightarrow>
     (error option \<times> Connector \<times> world) outcome" where
  "DeleteRecord E c model rid w =
     (case Call (Call_bool E) (models c) ''execute_kw''
             [VString (DB c), VInt (UID c), VString (APIKey c),
              VString model, VString ''unlink'',
              VSlice (Some [VInt64s (Some [rid])])] w of
        Panic \<Rightarrow> Panic
      | Return (Inl err, w1) \<Rightarrow>
          Return (Some (Wrapf (''delete failed for model '' @ model @ '' with id '' @ fmt_d rid
                               @ '': '') err), c, w1)
      | Return (Inr result, w1) \<Rightarrow>
          if \<not> result then
            Return (Some (Errorf (''delete failed for model '' @ model @ '' with id '' @ fmt_d rid
                                  @ '': no record deleted'')), c, w1)
          else Return (None, c, w1))"

definition ExecuteMethod ::
  "env \<Rightarrow> Connector \<Rightarrow> string \<Rightarrow> string \<Rightarrow> goslice \<Rightarrow> gomap \<Rightarrow> world \<Rightarrow>
     ((val \<times> error option) \<times> Connector \<times> world) outcome" where
  "ExecuteMethod E c model method args kwargs w =
     (let callArgs0 = [VString (DB c), VInt (UID c), VString (APIKey c),
                       VString model, VString method,
                       VSlice args];
          callArgs = (if kwargs \<noteq> None then callArgs0 @ [VMap kwargs] else callArgs0)
      in case Call (Call_any E) (models c) ''execute_kw'' callArgs w of
           Panic \<Rightarrow> Panic
         | Return (Inl err, w1) \<Rightarrow>
             Return ((VNil, Some (Wrapf (''method execution failed for '' @ model @ ''.'' @ method
                                         @ '': '') err)), c, w1)
         | Return (Inr result, w1) \<Rightarrow> Return ((result, None), c, w1))"

section \<open>Specification-side notions used to state the properties\<close>

text \<open>
  The validation order of the configuration, as the specification words it: the four
  fields in the fixed order url, username, api_key, db, each with the JSON key, the name
  the error message uses for it, and its selector. \<open>first_empty\<close> is the first field of
  that order whose value is the empty string.
\<close>

definition check_order :: "(string \<times> string \<times> (Config \<Rightarrow> string)) list" where
  "check_order =
     [(''url'', ''URL'', Config.URL),
      (''username'', ''username'', Config.Username),
      (''api_key'', ''API key'', Config.APIKey),
      (''db'', ''database name'', Config.DB)]"

definition first_empty :: "Config \<Rightarrow> (string \<times> string) option" where
  "first_empty cfg =
     map_option (\<lambda>(key, label, sel). (key, label))
       (find (\<lambda>(key, label, sel). sel cfg = []) check_order)"

text \<open>The events of a trace that establish an endpoint, and the events added by a run.\<close>

fun is_NewClient :: "event \<Rightarrow> bool" where
  "is_NewClient (NewClient_ev url t) = True"
| "is_NewClient ev = False"

definition added :: "world \<Rightarrow> world \<Rightarrow> event list" where
  "added w w' = drop (length (trace w)) (trace w')"

section \<open>A stub environment\<close>

text \<open>
  The end-to-end scenario of the specification: a server that accepts
  \<^verbatim>\<open>authenticate("d", "u", "k", {})\<close> and answers 7, a configuration file holding the
  same connection data, and canned answers for the data service.
\<close>

definition world0 :: world where
  "world0 = \<lparr>trace = [], transports = 0\<rparr>"

definition stub_config :: Config where
  "stub_config = \<lparr>Config.URL = ''http://x'', Config.Username = ''u'',
                   Config.APIKey = ''k'', Config.DB = ''d''\<rparr>"

definition stub_leads :: records where
  "stub_leads = Some [[(''id'', VInt 1), (''name'', VString ''First lead'')],
                      [(''id'', VInt 2), (''name'', VString ''Second lead'')]]"

definition stub_env :: env where
  "stub_env =
     \<lparr>os_ReadFile = (\<lambda>tr path. if path = ''config.json'' then Inr ''{stub}''
                                else Inl (Errorf ''open: no such file or directory'')),
      json_Unmarshal = (\<lambda>data. if data = ''{stub}'' then Inr stub_config
                                else Inl (Errorf ''unexpected end of JSON input'')),
      xmlrpc_NewClient = (\<lambda>tr url t. Inr (length tr)),
      Call_int = (\<lambda>tr cl serviceMethod args.
                    if serviceMethod = ''authenticate''
                       \<and> args = [VString ''d'', VString ''u'', VString ''k'', VStringMap (Some [])]
                    then Inr 7 else Inl (Errorf ''fault'')),
      Call_int64 = (\<lambda>tr cl serviceMethod args. Inr 42),
      Call_bool = (\<lambda>tr cl serviceMethod args. Inr True),
      Call_records = (\<lambda>tr cl serviceMethod args. Inr stub_leads),
      Call_any = (\<lambda>tr cl serviceMethod args. Inr (VString ''done''))\<rparr>"

definition stub_connector :: Connector where
  "stub_connector = \<lparr>URL = ''http://x'', Username = ''u'', APIKey = ''k'', DB = ''d'',
                      UID = 7, common = Some 0, models = Some 1\<rparr>"

definition stub_opts :: SearchReadOptions where
  "stub_opts = \<lparr>Fields = Some [''id'', ''name''], Domain = None, Offset = 0, Limit = 10,
                 Order = ''create_date desc''\<rparr>"

text \<open>Variants of the stub: a server that answers differently, a file that is incomplete.\<close>

definition env_uid :: "int \<Rightarrow> env" where
  "env_uid n = stub_env\<lparr>Call_int := (\<lambda>tr cl serviceMethod args. Inr n)\<rparr>"

definition env_fault :: env where
  "env_fault =
     stub_env\<lparr>Call_int64 := (\<lambda>tr cl serviceMethod args. Inl (Errorf ''connection refused'')),
              Call_bool := (\<lambda>tr cl serviceMethod args. Inl (Errorf ''connection refused'')),
              Call_records := (\<lambda>tr cl serviceMethod args. Inl (Errorf ''connection refused'')),
              Call_any := (\<lambda>tr cl serviceMethod args. Inl (Errorf ''connection refused''))\<rparr>"

definition env_false :: env where
  "env_false = stub_env\<lparr>Call_bool := (\<lambda>tr cl serviceMethod args. Inr False)\<rparr>"

definition env_config :: "Config \<Rightarrow> env" where
  "env_config cfg = stub_env\<lparr>json_Unmarshal := (\<lambda>data. Inr cfg)\<rparr>"

definition env_no_endpoint :: "string \<Rightarrow> env" where
  "env_no_endpoint suffix =
     stub_env\<lparr>xmlrpc_NewClient :=
       (\<lambda>tr url t. if url = ''http://x'' @ suffix then Inl (Errorf ''malformed URL'')
                    else Inr (length tr))\<rparr>"

definition stub_values :: gomap where
  "stub_values = Some [(''name'', VString ''Renamed lead'')]"

definition stub_config_gaps :: Config where
  "stub_config_gaps = stub_config\<lparr>Config.Username := [], Config.DB := []\<rparr>"

section \<open>Properties\<close>

subsection \<open>Calling through a handle\<close>

lemma Call_Some:
  "Call reply (Some cl) serviceMethod args w =
     Return (reply (trace w) cl serviceMethod args, emit (Call_ev cl serviceMethod args) w)"
  by (simp add: Call_def)

lemma Call_None: "Call reply None serviceMethod args w = Panic"
  by (simp add: Call_def)

subsection \<open>Record search\<close>

text \<open>
  Claim C1. On a Connector that holds a data-service handle, \<^verbatim>\<open>SearchReadRecords\<close>
  appends exactly one event to the trace: a call of \<^verbatim>\<open>execute_kw\<close> on that handle whose
  arguments are DB, UID, APIKey, the model, \<^verbatim>\<open>"search_read"\<close>, the one-element list
  holding the Domain (the empty sequence standing in for a nil Domain) and the map of
  fields, offset, limit and order. When the call succeeds the records it decoded are
  returned as they are, with a nil error; when it fails the records are nil and the error
  wraps the cause. The Connector is returned as it was.
\<close>

theorem SearchReadRecords_one_call:
  assumes "models c = Some cl"
  shows "SearchReadRecords E c model opts w =
     (let args = [VString (DB c), VInt (UID c), VString (APIKey c),
                  VString model, VString ''search_read'',
                  VSlice (Some [VSlice (Some (case Domain opts of None \<Rightarrow> [] | Some d \<Rightarrow> d))]),
                  VMap (Some [(''fields'', VStrings (Fields opts)),
                              (''offset'', VInt (Offset opts)),
                              (''limit'', VInt (Limit opts)),
                              (''order'', VString (Order opts))])]
      in Return
           ((case Call_records E (trace w) cl ''execute_kw'' args of
               Inl err \<Rightarrow>
                 (None, Some (Wrapf (''search_read failed for model '' @ model @ '': '') err))
             | Inr rs \<Rightarrow> (rs, None)),
            c,
            w\<lparr>trace := trace w @ [Call_ev cl ''execute_kw'' args]\<rparr>))"
proof (cases "Domain opts")
  case None
  with assms show ?thesis
    by (simp add: SearchReadRecords_def Call_Some emit_def Let_def split: sum.splits)
next
  case (Some d)
  with assms show ?thesis
    by (simp add: SearchReadRecords_def Call_Some emit_def Let_def split: sum.splits)
qed

text \<open>
  The scenario of the specification: fields id and name, limit 10, order by creation date,
  no Domain, on the session 7 of database d.
\<close>

theorem SearchReadRecords_one_call_witness:
  "models stub_connector = Some 1 \<and>
   SearchReadRecords stub_env stub_connector ''crm.lead'' stub_opts world0 =
     Return
       ((stub_leads, None),
        stub_connector,
        \<lparr>trace =
           [Call_ev 1 ''execute_kw''
              [VString ''d'', VInt 7, VString ''k'', VString ''crm.lead'', VString ''search_read'',
               VSlice (Some [VSlice (Some [])]),
               VMap (Some [(''fields'', VStrings (Some [''id'', ''name''])),
                           (''offset'', VInt 0),
                           (''limit'', VInt 10),
                           (''order'', VString ''create_date desc'')])]],
         transports = 0\<rparr>)"
proof -
  have h: "models stub_connector = Some 1"
    by (simp add: stub_connector_def)
  show ?thesis
    using h SearchReadRecords_one_call [OF h, of stub_env "''crm.lead''" stub_opts world0]
    by (simp add: stub_env_def stub_connector_def stub_opts_def world0_def)
qed

text \<open>
  Claim C3. Options whose Domain is nil give the same outcome, and so the same remote
  call, as the same options with the explicit empty Domain; on a Connector holding a
  data-service handle that call is \<^verbatim>\<open>execute_kw\<close> with the empty sequence in the
  one-element list of its sixth argument.
\<close>

theorem SearchReadRecords_nil_Domain:
  assumes "Domain opts = None"
  shows "SearchReadRecords E c model opts w =
           SearchReadRecords E c model (opts\<lparr>Domain := Some []\<rparr>) w
       \<and> (\<forall>cl. models c = Some cl \<longrightarrow>
            (\<exists>r. SearchReadRecords E c model opts w =
                   Return (r, c,
                     w\<lparr>trace := trace w @
                        [Call_ev cl ''execute_kw''
                           [VString (DB c), VInt (UID c), VString (APIKey c),
                            VString model, VString ''search_read'',
                            VSlice (Some [VSlice (Some [])]),
                            VMap (Some [(''fields'', VStrings (Fields opts)),
                                        (''offset'', VInt (Offset opts)),
                                        (''limit'', VInt (Limit opts)),
                                        (''order'', VString (Order opts))])]]\<rparr>)))"
proof (intro conjI allI impI)
  show "SearchReadRecords E c model opts w =
          SearchReadRecords E c model (opts\<lparr>Domain := Some []\<rparr>) w"
    using assms by (simp add: SearchReadRecords_def)
next
  fix cl
  assume h: "models c = Some cl"
  show "\<exists>r. SearchReadRecords E c model opts w =
          Return (r, c,
            w\<lparr>trace := trace w @
               [Call_ev cl ''execute_kw''
                  [VString (DB c), VInt (UID c), VString (APIKey c),
                   VString model, VString ''search_read'',
                   VSlice (Some [VSlice (Some [])]),
                   VMap (Some [(''fields'', VStrings (Fields opts)),
                               (''offset'', VInt (Offset opts)),
                               (''limit'', VInt (Limit opts)),
                               (''order'', VString (Order opts))])]]\<rparr>)"
    using assms h
    by (auto simp add: SearchReadRecords_def Call_Some emit_def Let_def split: sum.splits)
qed

theorem SearchReadRecords_nil_Domain_witness:
  "Domain stub_opts = None \<and> models stub_connector = Some 1 \<and>
   SearchReadRecords stub_env stub_connector ''crm.lead'' stub_opts world0 =
     SearchReadRecords stub_env stub_connector ''crm.lead'' (stub_opts\<lparr>Domain := Some []\<rparr>) world0 \<and>
   SearchReadRecords stub_env stub_connector ''crm.lead'' (stub_opts\<lparr>Domain := Some []\<rparr>) world0 =
     Return
       ((stub_leads, None),
        stub_connector,
        \<lparr>trace =
           [Call_ev 1 ''execute_kw''
              [VString ''d'', VInt 7, VString ''k'', VString ''crm.lead'', VString ''search_read'',
               VSlice (Some [VSlice (Some [])]),
               VMap (Some [(''fields'', VStrings (Some [''id'', ''name''])),
                           (''offset'', VInt 0),
                           (''limit'', VInt 10),
                           (''order'', VString ''create_date desc'')])]],
         transports = 0\<rparr>)"
proof -
  have h: "Domain stub_opts = None"
    by (simp add: stub_opts_def)
  have run: "SearchReadRecords stub_env stub_connector ''crm.lead'' (stub_opts\<lparr>Domain := Some []\<rparr>) world0 =
     Return
       ((stub_leads, None),
        stub_connector,
        \<lparr>trace =
           [Call_ev 1 ''execute_kw''
              [VString ''d'', VInt 7, VString ''k'', VString ''crm.lead'', VString ''search_read'',
               VSlice (Some [VSlice (Some [])]),
               VMap (Some [(''fields'', VStrings (Some [''id'', ''name''])),
                           (''offset'', VInt 0),
                           (''limit'', VInt 10),
                           (''order'', VString ''create_date desc'')])]],
         transports = 0\<rparr>)"
    by (simp add: SearchReadRecords_def Call_def emit_def stub_env_def stub_connector_def
          stub_opts_def world0_def)
  from SearchReadRecords_nil_Domain [OF h, of stub_env stub_connector "''crm.lead''" world0]
  have "SearchReadRecords stub_env stub_connector ''crm.lead'' stub_opts world0 =
     SearchReadRecords stub_env stub_connector ''crm.lead'' (stub_opts\<lparr>Domain := Some []\<rparr>) world0"
    by (rule conjunct1)
  with h run show ?thesis
    by (simp add: stub_connector_def)
qed

text \<open>
  Claim C6. On a Connector holding a data-service handle, \<^verbatim>\<open>ExecuteMethod\<close> with nil
  kwargs calls \<^verbatim>\<open>execute_kw\<close> with the six arguments DB, UID, APIKey, model, method and
  args; with any non-nil kwargs, the empty map included, it calls with seven, the kwargs
  map last after the same six.
\<close>

theorem ExecuteMethod_kwargs:
  assumes "models c = Some cl"
  shows "let six = [VString (DB c), VInt (UID c), VString (APIKey c),
                    VString model, VString method, VSlice args]
         in length six = 6
          \<and> ExecuteMethod E c model method args None w =
              Return
                ((case Call_any E (trace w) cl ''execute_kw'' six of
                    Inl err \<Rightarrow>
                      (VNil, Some (Wrapf (''method execution failed for '' @ model @ ''.'' @ method
                                          @ '': '') err))
                  | Inr result \<Rightarrow> (result, None)),
                 c, w\<lparr>trace := trace w @ [Call_ev cl ''execute_kw'' six]\<rparr>)
          \<and> (\<forall>kw. length (six @ [VMap (Some kw)]) = 7
               \<and> ExecuteMethod E c model method args (Some kw) w =
                   Return
                     ((case Call_any E (trace w) cl ''execute_kw'' (six @ [VMap (Some kw)]) of
                         Inl err \<Rightarrow>
                           (VNil, Some (Wrapf (''method execution failed for '' @ model @ ''.''
                                               @ method @ '': '') err))
                       | Inr result \<Rightarrow> (result, None)),
                      c, w\<lparr>trace := trace w @ [Call_ev cl ''execute_kw'' (six @ [VMap (Some kw)])]\<rparr>))"
  using assms
  by (simp add: ExecuteMethod_def Call_Some emit_def Let_def split: sum.splits)

theorem ExecuteMethod_kwargs_witness:
  "models stub_connector = Some 1 \<and>
   ExecuteMethod stub_env stub_connector ''crm.lead'' ''action_set_won'' (Some [VInt64s (Some [5])])
       None world0 =
     Return ((VString ''done'', None), stub_connector,
       \<lparr>trace = [Call_ev 1 ''execute_kw''
                   [VString ''d'', VInt 7, VString ''k'', VString ''crm.lead'',
                    VString ''action_set_won'', VSlice (Some [VInt64s (Some [5])])]],
        transports = 0\<rparr>) \<and>
   ExecuteMethod stub_env stub_connector ''crm.lead'' ''action_set_won'' (Some [VInt64s (Some [5])])
       (Some []) world0 =
     Return ((VString ''done'', None), stub_connector,
       \<lparr>trace = [Call_ev 1 ''execute_kw''
                   [VString ''d'', VInt 7, VString ''k'', VString ''crm.lead'',
                    VString ''action_set_won'', VSlice (Some [VInt64s (Some [5])]),
                    VMap (Some [])]],
        transports = 0\<rparr>)"
proof -
  have h: "models stub_connector = Some 1"
    by (simp add: stub_connector_def)
  show ?thesis
    using h ExecuteMethod_kwargs [OF h, of "''crm.lead''" "''action_set_won''"
               "Some [VInt64s (Some [5])]" stub_env world0]
    by (simp add: Let_def stub_env_def stub_connector_def world0_def)
qed

subsection \<open>Update and delete\<close>

lemma fmt_d_5: "fmt_d 5 = ''5''"
  by code_simp

text \<open>
  Claim C4. On a Connector holding a data-service handle, \<^verbatim>\<open>UpdateRecord\<close> issues the
  \<^verbatim>\<open>write\<close> call and \<^verbatim>\<open>DeleteRecord\<close> the \<^verbatim>\<open>unlink\<close> call. Each returns an error exactly
  when its call fails or answers false, and nil exactly when the call answers true. A
  failed call gives an error that wraps the cause; the answer false gives an error with
  no wrapped cause whose message ends in "no record updated" (for delete, "no record
  deleted"). The two errors are different values.
\<close>

theorem UpdateRecord_DeleteRecord_failures:
  assumes "models c = Some cl"
  shows "let wargs = [VString (DB c), VInt (UID c), VString (APIKey c),
                      VString model, VString ''write'',
                      VSlice (Some [VInt64s (Some [rid]), VMap values])];
             uargs = [VString (DB c), VInt (UID c), VString (APIKey c),
                      VString model, VString ''unlink'',
                      VSlice (Some [VInt64s (Some [rid])])];
             wr = Call_bool E (trace w) cl ''execute_kw'' wargs;
             ur = Call_bool E (trace w) cl ''execute_kw'' uargs;
             upd = ''update failed for model '' @ model @ '' with id '' @ fmt_d rid;
             del = ''delete failed for model '' @ model @ '' with id '' @ fmt_d rid
         in \<exists>eu ed.
              UpdateRecord E c model rid values w =
                Return (eu, c, w\<lparr>trace := trace w @ [Call_ev cl ''execute_kw'' wargs]\<rparr>)
            \<and> DeleteRecord E c model rid w =
                Return (ed, c, w\<lparr>trace := trace w @ [Call_ev cl ''execute_kw'' uargs]\<rparr>)
            \<and> (eu \<noteq> None \<longleftrightarrow> (\<exists>err. wr = Inl err) \<or> wr = Inr False)
            \<and> (eu = None \<longleftrightarrow> wr = Inr True)
            \<and> (\<forall>err. wr = Inl err \<longrightarrow> eu = Some (Wrapf (upd @ '': '') err))
            \<and> (wr = Inr False \<longrightarrow> eu = Some (Errorf (upd @ '': no record updated'')))
            \<and> (ed \<noteq> None \<longleftrightarrow> (\<exists>err. ur = Inl err) \<or> ur = Inr False)
            \<and> (ed = None \<longleftrightarrow> ur = Inr True)
            \<and> (\<forall>err. ur = Inl err \<longrightarrow> ed = Some (Wrapf (del @ '': '') err))
            \<and> (ur = Inr False \<longrightarrow> ed = Some (Errorf (del @ '': no record deleted'')))
            \<and> (\<forall>err. Wrapf (upd @ '': '') err \<noteq> Errorf (upd @ '': no record updated'')
                    \<and> Unwrap (Wrapf (upd @ '': '') err) = Some err
                    \<and> Wrapf (del @ '': '') err \<noteq> Errorf (del @ '': no record deleted'')
                    \<and> Unwrap (Wrapf (del @ '': '') err) = Some err)
            \<and> Unwrap (Errorf (upd @ '': no record updated'')) = None
            \<and> Unwrap (Errorf (del @ '': no record deleted'')) = None"
proof -
  let ?wargs = "[VString (DB c), VInt (UID c), VString (APIKey c),
                 VString model, VString ''write'',
                 VSlice (Some [VInt64s (Some [rid]), VMap values])]"
  let ?uargs = "[VString (DB c), VInt (UID c), VString (APIKey c),
                 VString model, VString ''unlink'',
                 VSlice (Some [VInt64s (Some [rid])])]"
  show ?thesis
    using assms
    by (cases "Call_bool E (trace w) cl ''execute_kw'' ?wargs";
        cases "Call_bool E (trace w) cl ''execute_kw'' ?uargs")
       (auto simp add: Let_def UpdateRecord_def DeleteRecord_def Call_Some emit_def)
qed

theorem UpdateRecord_DeleteRecord_failures_witness:
  "models stub_connector = Some 1 \<and>
   UpdateRecord stub_env stub_connector ''crm.lead'' 5 stub_values world0 =
     Return (None, stub_connector,
       \<lparr>trace = [Call_ev 1 ''execute_kw''
                   [VString ''d'', VInt 7, VString ''k'', VString ''crm.lead'', VString ''write'',
                    VSlice (Some [VInt64s (Some [5]), VMap stub_values])]],
        transports = 0\<rparr>) \<and>
   UpdateRecord env_false stub_connector ''crm.lead'' 5 stub_values world0 =
     Return (Some (Errorf ''update failed for model crm.lead with id 5: no record updated''),
       stub_connector,
       \<lparr>trace = [Call_ev 1 ''execute_kw''
                   [VString ''d'', VInt 7, VString ''k'', VString ''crm.lead'', VString ''write'',
                    VSlice (Some [VInt64s (Some [5]), VMap stub_values])]],
        transports = 0\<rparr>) \<and>
   UpdateRecord env_fault stub_connector ''crm.lead'' 5 stub_values world0 =
     Return (Some (Wrapf ''update failed for model crm.lead with id 5: ''
                     (Errorf ''connection refused'')),
       stub_connector,
       \<lparr>trace = [Call_ev 1 ''execute_kw''
                   [VString ''d'', VInt 7, VString ''k'', VString ''crm.lead'', VString ''write'',
                    VSlice (Some [VInt64s (Some [5]), VMap stub_values])]],
        transports = 0\<rparr>) \<and>
   DeleteRecord stub_env stub_connector ''crm.lead'' 5 world0 =
     Return (None, stub_connector,
       \<lparr>trace = [Call_ev 1 ''execute_kw''
                   [VString ''d'', VInt 7, VString ''k'', VString ''crm.lead'', VString ''unlink'',
                    VSlice (Some [VInt64s (Some [5])])]],
        transports = 0\<rparr>) \<and>
   DeleteRecord env_false stub_connector ''crm.lead'' 5 world0 =
     Return (Some (Errorf ''delete failed for model crm.lead with id 5: no record deleted''),
       stub_connector,
       \<lparr>trace = [Call_ev 1 ''execute_kw''
                   [VString ''d'', VInt 7, VString ''k'', VString ''crm.lead'', VString ''unlink'',
                    VSlice (Some [VInt64s (Some [5])])]],
        transports = 0\<rparr>) \<and>
   DeleteRecord env_fault stub_connector ''crm.lead'' 5 world0 =
     Return (Some (Wrapf ''delete failed for model crm.lead with id 5: ''
                     (Errorf ''connection refused'')),
       stub_connector,
       \<lparr>trace = [Call_ev 1 ''execute_kw''
                   [VString ''d'', VInt 7, VString ''k'', VString ''crm.lead'', VString ''unlink'',
                    VSlice (Some [VInt64s (Some [5])])]],
        transports = 0\<rparr>)"
proof -
  have h: "models stub_connector = Some 1"
    by (simp add: stub_connector_def)
  have t: "Call_bool stub_env = (\<lambda>tr cl serviceMethod args. Inr True)"
    by (simp add: stub_env_def)
  have f: "Call_bool env_false = (\<lambda>tr cl serviceMethod args. Inr False)"
    by (simp add: env_false_def)
  have e: "Call_bool env_fault = (\<lambda>tr cl serviceMethod args. Inl (Errorf ''connection refused''))"
    by (simp add: env_fault_def)
  have c: "DB stub_connector = ''d''" "UID stub_connector = 7" "APIKey stub_connector = ''k''"
    by (simp_all add: stub_connector_def)
  show ?thesis
    using h
      UpdateRecord_DeleteRecord_failures [OF h, of "''crm.lead''" 5 stub_values stub_env world0]
      UpdateRecord_DeleteRecord_failures [OF h, of "''crm.lead''" 5 stub_values env_false world0]
      UpdateRecord_DeleteRecord_failures [OF h, of "''crm.lead''" 5 stub_values env_fault world0]
    by (auto simp add: Let_def t f e c fmt_d_5 world0_def)
qed

subsection \<open>Values returned with an error\<close>

text \<open>
  Claim C10. When \<^verbatim>\<open>CreateRecord\<close>, \<^verbatim>\<open>SearchReadRecords\<close> or \<^verbatim>\<open>ExecuteMethod\<close> returns a
  non-nil error, the value returned with it is the zero value of its type: record id 0,
  the nil record sequence, the nil result.
\<close>

theorem error_comes_with_zero_value:
  "(\<forall>rid e c' w'. CreateRecord E c model values w = Return ((rid, Some e), c', w') \<longrightarrow> rid = 0)
 \<and> (\<forall>rs e c' w'. SearchReadRecords E c model opts w = Return ((rs, Some e), c', w')
        \<longrightarrow> rs = None)
 \<and> (\<forall>v e c' w'. ExecuteMethod E c model method args kwargs w = Return ((v, Some e), c', w')
        \<longrightarrow> v = VNil)"
proof (intro conjI allI impI)
  fix rid e c' w'
  assume "CreateRecord E c model values w = Return ((rid, Some e), c', w')"
  then show "rid = 0"
    by (cases "models c") (auto simp add: CreateRecord_def Call_def split: sum.splits)
next
  fix rs e c' w'
  assume "SearchReadRecords E c model opts w = Return ((rs, Some e), c', w')"
  then show "rs = None"
    by (cases "models c")
       (auto simp add: SearchReadRecords_def Call_def Let_def split: sum.splits if_splits)
next
  fix v e c' w'
  assume "ExecuteMethod E c model method args kwargs w = Return ((v, Some e), c', w')"
  then show "v = VNil"
    by (cases "models c")
       (auto simp add: ExecuteMethod_def Call_def Let_def split: sum.splits if_splits)
qed

theorem error_comes_with_zero_value_witness:
  "(\<exists>w'. CreateRecord env_fault stub_connector ''crm.lead'' stub_values world0 =
      Return ((0, Some (Wrapf ''create failed for model crm.lead: '' (Errorf ''connection refused''))),
              stub_connector, w'))
 \<and> (\<exists>w'. SearchReadRecords env_fault stub_connector ''crm.lead'' stub_opts world0 =
      Return ((None, Some (Wrapf ''search_read failed for model crm.lead: ''
                             (Errorf ''connection refused''))),
              stub_connector, w'))
 \<and> (\<exists>w'. ExecuteMethod env_fault stub_connector ''crm.lead'' ''action_set_won'' None None world0 =
      Return ((VNil, Some (Wrapf ''method execution failed for crm.lead.action_set_won: ''
                             (Errorf ''connection refused''))),
              stub_connector, w'))"
proof -
  have a: "\<exists>rid w'. CreateRecord env_fault stub_connector ''crm.lead'' stub_values world0 =
      Return ((rid, Some (Wrapf ''create failed for model crm.lead: ''
                            (Errorf ''connection refused''))),
              stub_connector, w')"
    by (simp add: CreateRecord_def Call_def env_fault_def stub_env_def stub_connector_def)
  have b: "\<exists>rs w'. SearchReadRecords env_fault stub_connector ''crm.lead'' stub_opts world0 =
      Return ((rs, Some (Wrapf ''search_read failed for model crm.lead: ''
                             (Errorf ''connection refused''))),
              stub_connector, w')"
    by (simp add: SearchReadRecords_def Call_def env_fault_def stub_env_def stub_connector_def
          stub_opts_def)
  have c: "\<exists>v w'. ExecuteMethod env_fault stub_connector ''crm.lead'' ''action_set_won'' None None
                world0 =
      Return ((v, Some (Wrapf ''method execution failed for crm.lead.action_set_won: ''
                             (Errorf ''connection refused''))),
              stub_connector, w')"
    by (simp add: ExecuteMethod_def Call_def env_fault_def stub_env_def stub_connector_def)
  note zero = error_comes_with_zero_value [of env_fault stub_connector "''crm.lead''" stub_values
                 world0 stub_opts "''action_set_won''" None None]
  from a zero
  have a': "\<exists>w'. CreateRecord env_fault stub_connector ''crm.lead'' stub_values world0 =
      Return ((0, Some (Wrapf ''create failed for model crm.lead: '' (Errorf ''connection refused''))),
              stub_connector, w')"
    by blast
  from b zero
  have b': "\<exists>w'. SearchReadRecords env_fault stub_connector ''crm.lead'' stub_opts world0 =
      Return ((None, Some (Wrapf ''search_read failed for model crm.lead: ''
                             (Errorf ''connection refused''))),
              stub_connector, w')"
    by blast
  from c zero
  have c': "\<exists>w'. ExecuteMethod env_fault stub_connector ''crm.lead'' ''action_set_won'' None None
               world0 =
      Return ((VNil, Some (Wrapf ''method execution failed for crm.lead.action_set_won: ''
                             (Errorf ''connection refused''))),
              stub_connector, w')"
    by blast
  from a' b' c' show ?thesis
    by (intro conjI)
qed

subsection \<open>Configuration loading\<close>

lemma first_empty_None:
  "first_empty cfg = None \<longleftrightarrow>
     Config.URL cfg \<noteq> [] \<and> Config.Username cfg \<noteq> [] \<and> Config.APIKey cfg \<noteq> []
     \<and> Config.DB cfg \<noteq> []"
  by (simp add: first_empty_def check_order_def)

lemma LoadConfig_decoded:
  assumes "os_ReadFile E (trace w) path = Inr data" and "json_Unmarshal E data = Inr cfg"
  shows "LoadConfig E path w =
     ((if Config.URL cfg = [] then (None, Some (Errorf ''URL is required in config''))
       else if Config.Username cfg = [] then (None, Some (Errorf ''username is required in config''))
       else if Config.APIKey cfg = [] then (None, Some (Errorf ''API key is required in config''))
       else if Config.DB cfg = [] then
         (None, Some (Errorf ''database name is required in config''))
       else (Some cfg, None)),
      w\<lparr>trace := trace w @ [ReadFile_ev path]\<rparr>)"
  using assms by (simp add: LoadConfig_def ReadFile_def emit_def)

text \<open>
  Claim C5. When the file can be read and decoded, \<^verbatim>\<open>LoadConfig\<close> returns the decoded
  configuration with a nil error if none of the four fields is empty, and otherwise no
  configuration and the error that names the first empty field in the order url,
  username, api_key, db. It reads the file once and does nothing else.
\<close>

theorem LoadConfig_validation:
  assumes "os_ReadFile E (trace w) path = Inr data" and "json_Unmarshal E data = Inr cfg"
  shows "LoadConfig E path w =
           ((case first_empty cfg of
               None \<Rightarrow> (Some cfg, None)
             | Some (key, label) \<Rightarrow> (None, Some (Errorf (label @ '' is required in config'')))),
            w\<lparr>trace := trace w @ [ReadFile_ev path]\<rparr>)
       \<and> (first_empty cfg = None \<longleftrightarrow>
            Config.URL cfg \<noteq> [] \<and> Config.Username cfg \<noteq> [] \<and> Config.APIKey cfg \<noteq> []
            \<and> Config.DB cfg \<noteq> [])
       \<and> map fst check_order = [''url'', ''username'', ''api_key'', ''db'']"
proof (intro conjI)
  show "LoadConfig E path w =
           ((case first_empty cfg of
               None \<Rightarrow> (Some cfg, None)
             | Some (key, label) \<Rightarrow> (None, Some (Errorf (label @ '' is required in config'')))),
            w\<lparr>trace := trace w @ [ReadFile_ev path]\<rparr>)"
    unfolding LoadConfig_decoded [OF assms]
    by (simp add: first_empty_def check_order_def)
next
  show "first_empty cfg = None \<longleftrightarrow>
            Config.URL cfg \<noteq> [] \<and> Config.Username cfg \<noteq> [] \<and> Config.APIKey cfg \<noteq> []
            \<and> Config.DB cfg \<noteq> []"
    by (rule first_empty_None)
next
  show "map fst check_order = [''url'', ''username'', ''api_key'', ''db'']"
    by (simp add: check_order_def)
qed

text \<open>
  A complete file is returned as it is; a file whose username and db are both empty
  fails on the username, the earlier of the two.
\<close>

theorem LoadConfig_validation_witness:
  "os_ReadFile stub_env (trace world0) ''config.json'' = Inr ''{stub}'' \<and>
   json_Unmarshal stub_env ''{stub}'' = Inr stub_config \<and>
   json_Unmarshal (env_config stub_config_gaps) ''{stub}'' = Inr stub_config_gaps \<and>
   LoadConfig stub_env ''config.json'' world0 =
     ((Some stub_config, None), \<lparr>trace = [ReadFile_ev ''config.json''], transports = 0\<rparr>) \<and>
   LoadConfig (env_config stub_config_gaps) ''config.json'' world0 =
     ((None, Some (Errorf ''username is required in config'')),
      \<lparr>trace = [ReadFile_ev ''config.json''], transports = 0\<rparr>)"
proof -
  have r: "os_ReadFile stub_env (trace world0) ''config.json'' = Inr ''{stub}''"
    by (simp add: stub_env_def)
  have r': "os_ReadFile (env_config stub_config_gaps) (trace world0) ''config.json'' = Inr ''{stub}''"
    by (simp add: env_config_def stub_env_def)
  have u: "json_Unmarshal stub_env ''{stub}'' = Inr stub_config"
    by (simp add: stub_env_def)
  have u': "json_Unmarshal (env_config stub_config_gaps) ''{stub}'' = Inr stub_config_gaps"
    by (simp add: env_config_def)
  have full: "first_empty stub_config = None"
    by (simp add: first_empty_def check_order_def stub_config_def)
  have gaps: "first_empty stub_config_gaps = Some (''username'', ''username'')"
    by (simp add: first_empty_def check_order_def stub_config_gaps_def stub_config_def)
  show ?thesis
    using r u u' LoadConfig_validation [OF r u] LoadConfig_validation [OF r' u']
    by (simp add: full gaps world0_def)
qed

lemma LoadConfig_one_of:
  "(\<exists>err w1. LoadConfig E path w = ((None, Some err), w1))
   \<or> (\<exists>cfg w1. LoadConfig E path w = ((Some cfg, None), w1))"
  by (simp add: LoadConfig_def ReadFile_def split: sum.splits)

text \<open>
  Claim C7. \<^verbatim>\<open>NewConnectorFromConfig\<close> is \<^verbatim>\<open>LoadConfig\<close> followed by \<^verbatim>\<open>NewConnector\<close>:
  an error of \<^verbatim>\<open>LoadConfig\<close> is returned as it is, with no Connector; a loaded
  configuration gives exactly the outcome of \<^verbatim>\<open>NewConnector\<close> on its url, username,
  api_key and db, run in the world \<^verbatim>\<open>LoadConfig\<close> left. \<^verbatim>\<open>LoadConfig\<close> always
  returns one of the two.
\<close>

theorem NewConnectorFromConfig_composition:
  "(\<forall>r err w1. LoadConfig E path w = ((r, Some err), w1) \<longrightarrow>
       NewConnectorFromConfig E path w = Return ((None, Some err), w1))
 \<and> (\<forall>cfg w1. LoadConfig E path w = ((Some cfg, None), w1) \<longrightarrow>
       NewConnectorFromConfig E path w =
         NewConnector E (Config.URL cfg) (Config.Username cfg) (Config.APIKey cfg)
           (Config.DB cfg) w1)
 \<and> ((\<exists>err w1. LoadConfig E path w = ((None, Some err), w1))
      \<or> (\<exists>cfg w1. LoadConfig E path w = ((Some cfg, None), w1)))"
proof (intro conjI allI impI)
  fix r err w1
  assume "LoadConfig E path w = ((r, Some err), w1)"
  then show "NewConnectorFromConfig E path w = Return ((None, Some err), w1)"
    by (simp add: NewConnectorFromConfig_def)
next
  fix cfg w1
  assume "LoadConfig E path w = ((Some cfg, None), w1)"
  then show "NewConnectorFromConfig E path w =
         NewConnector E (Config.URL cfg) (Config.Username cfg) (Config.APIKey cfg)
           (Config.DB cfg) w1"
    by (simp add: NewConnectorFromConfig_def)
next
  show "(\<exists>err w1. LoadConfig E path w = ((None, Some err), w1))
      \<or> (\<exists>cfg w1. LoadConfig E path w = ((Some cfg, None), w1))"
    by (rule LoadConfig_one_of)
qed

subsection \<open>Connector construction\<close>

lemma fmt_d_7: "fmt_d 7 = ''7''"
  by code_simp

lemma fmt_d_minus_1: "fmt_d (- 1) = ''-1''"
  by code_simp

lemma NewConnector_common_fails:
  assumes "xmlrpc_NewClient E (trace w) (url @ ''/xmlrpc/2/common'') (transports w) = Inl err"
  shows "NewConnector E url username apiKey db w =
     Return ((None, Some (Wrapf ''failed to connect to common endpoint: '' err)),
       w\<lparr>trace := trace w @ [NewClient_ev (url @ ''/xmlrpc/2/common'') (transports w)],
         transports := Suc (transports w)\<rparr>)"
  using assms by (simp add: NewConnector_def new_Transport_def NewClient_def emit_def)

lemma NewConnector_models_fails:
  assumes "xmlrpc_NewClient E (trace w) (url @ ''/xmlrpc/2/common'') (transports w) = Inr cl1"
      and "xmlrpc_NewClient E (trace w @ [NewClient_ev (url @ ''/xmlrpc/2/common'') (transports w)])
             (url @ ''/xmlrpc/2/object'') (transports w) = Inl err"
  shows "NewConnector E url username apiKey db w =
     Return ((None, Some (Wrapf ''failed to connect to models endpoint: '' err)),
       w\<lparr>trace := trace w @ [NewClient_ev (url @ ''/xmlrpc/2/common'') (transports w),
                              NewClient_ev (url @ ''/xmlrpc/2/object'') (transports w)],
         transports := Suc (transports w)\<rparr>)"
  using assms by (simp add: NewConnector_def new_Transport_def NewClient_def emit_def)

lemma NewConnector_authenticates:
  assumes "xmlrpc_NewClient E (trace w) (url @ ''/xmlrpc/2/common'') (transports w) = Inr cl1"
      and "xmlrpc_NewClient E (trace w @ [NewClient_ev (url @ ''/xmlrpc/2/common'') (transports w)])
             (url @ ''/xmlrpc/2/object'') (transports w) = Inr cl2"
  shows "NewConnector E url username apiKey db w =
     (let evs = [NewClient_ev (url @ ''/xmlrpc/2/common'') (transports w),
                 NewClient_ev (url @ ''/xmlrpc/2/object'') (transports w)];
          args = [VString db, VString username, VString apiKey, VStringMap (Some [])];
          w4 = w\<lparr>trace := trace w @ evs @ [Call_ev cl1 ''authenticate'' args],
                  transports := Suc (transports w)\<rparr>
      in case Call_int E (trace w @ evs) cl1 ''authenticate'' args of
           Inl err \<Rightarrow> Return ((None, Some (Wrapf ''authentication failed: '' err)), w4)
         | Inr uid \<Rightarrow>
             if uid = 0 then
               Return ((None, Some (Errorf ''authentication failed: invalid credentials'')), w4)
             else
               Return ((Some \<lparr>URL = url, Username = username, APIKey = apiKey, DB = db,
                              UID = uid, common = Some cl1, models = Some cl2\<rparr>, None),
                 w4\<lparr>trace := trace w4 @
                      [Log_ev (''Successfully initialized Odoo connector with UID: ''
                               @ fmt_d uid)]\<rparr>))"
  using assms
  by (simp add: NewConnector_def new_Transport_def NewClient_def Call_Some emit_def
        log_Printf_def Let_def split: sum.splits)

lemma NewConnector_returns: "\<exists>r w'. NewConnector E url username apiKey db w = Return (r, w')"
proof (cases "xmlrpc_NewClient E (trace w) (url @ ''/xmlrpc/2/common'') (transports w)")
  case (Inl err)
  then show ?thesis
    by (simp add: NewConnector_common_fails)
next
  case (Inr cl1)
  note first = this
  show ?thesis
  proof (cases "xmlrpc_NewClient E
                  (trace w @ [NewClient_ev (url @ ''/xmlrpc/2/common'') (transports w)])
                  (url @ ''/xmlrpc/2/object'') (transports w)")
    case (Inl err)
    with first show ?thesis
      by (simp add: NewConnector_models_fails)
  next
    case (Inr cl2)
    with first show ?thesis
      by (simp add: NewConnector_authenticates Let_def split: sum.splits)
  qed
qed

lemma NewConnector_stub:
  "NewConnector stub_env ''http://x'' ''u'' ''k'' ''d'' \<lparr>trace = tr, transports = n\<rparr> =
     Return ((Some \<lparr>URL = ''http://x'', Username = ''u'', APIKey = ''k'', DB = ''d'', UID = 7,
                    common = Some (length tr), models = Some (Suc (length tr))\<rparr>, None),
       \<lparr>trace = tr @
          [NewClient_ev ''http://x/xmlrpc/2/common'' n,
           NewClient_ev ''http://x/xmlrpc/2/object'' n,
           Call_ev (length tr) ''authenticate''
             [VString ''d'', VString ''u'', VString ''k'', VStringMap (Some [])],
           Log_ev ''Successfully initialized Odoo connector with UID: 7''],
        transports = Suc n\<rparr>)"
proof -
  have a: "xmlrpc_NewClient stub_env (trace \<lparr>trace = tr, transports = n\<rparr>)
             (''http://x'' @ ''/xmlrpc/2/common'') (transports \<lparr>trace = tr, transports = n\<rparr>)
           = Inr (length tr)"
    by (simp add: stub_env_def)
  have b: "xmlrpc_NewClient stub_env
             (trace \<lparr>trace = tr, transports = n\<rparr> @
                [NewClient_ev (''http://x'' @ ''/xmlrpc/2/common'')
                   (transports \<lparr>trace = tr, transports = n\<rparr>)])
             (''http://x'' @ ''/xmlrpc/2/object'') (transports \<lparr>trace = tr, transports = n\<rparr>)
           = Inr (Suc (length tr))"
    by (simp add: stub_env_def)
  have c: "Call_int stub_env tr' cl ''authenticate''
             [VString ''d'', VString ''u'', VString ''k'', VStringMap (Some [])] = Inr 7" for tr' cl
    by (simp add: stub_env_def)
  show ?thesis
    unfolding NewConnector_authenticates [OF a b]
    by (simp add: Let_def c fmt_d_7)
qed

text \<open>The file of the stub gives the Connector of session 7; a missing file gives its error.\<close>

theorem NewConnectorFromConfig_composition_witness:
  "LoadConfig stub_env ''config.json'' world0 =
     ((Some stub_config, None), \<lparr>trace = [ReadFile_ev ''config.json''], transports = 0\<rparr>) \<and>
   NewConnectorFromConfig stub_env ''config.json'' world0 =
     Return ((Some \<lparr>URL = ''http://x'', Username = ''u'', APIKey = ''k'', DB = ''d'', UID = 7,
                    common = Some 1, models = Some 2\<rparr>, None),
       \<lparr>trace =
          [ReadFile_ev ''config.json'',
           NewClient_ev ''http://x/xmlrpc/2/common'' 0,
           NewClient_ev ''http://x/xmlrpc/2/object'' 0,
           Call_ev 1 ''authenticate''
             [VString ''d'', VString ''u'', VString ''k'', VStringMap (Some [])],
           Log_ev ''Successfully initialized Odoo connector with UID: 7''],
        transports = 1\<rparr>) \<and>
   LoadConfig stub_env ''missing.json'' world0 =
     ((None, Some (Wrapf ''failed to read config file: ''
                     (Errorf ''open: no such file or directory''))),
      \<lparr>trace = [ReadFile_ev ''missing.json''], transports = 0\<rparr>) \<and>
   NewConnectorFromConfig stub_env ''missing.json'' world0 =
     Return ((None, Some (Wrapf ''failed to read config file: ''
                            (Errorf ''open: no such file or directory''))),
       \<lparr>trace = [ReadFile_ev ''missing.json''], transports = 0\<rparr>)"
proof -
  have ok: "LoadConfig stub_env ''config.json'' world0 =
     ((Some stub_config, None), \<lparr>trace = [ReadFile_ev ''config.json''], transports = 0\<rparr>)"
    by (simp add: LoadConfig_def ReadFile_def emit_def stub_env_def stub_config_def world0_def)
  have missing: "LoadConfig stub_env ''missing.json'' world0 =
     ((None, Some (Wrapf ''failed to read config file: ''
                     (Errorf ''open: no such file or directory''))),
      \<lparr>trace = [ReadFile_ev ''missing.json''], transports = 0\<rparr>)"
    by (simp add: LoadConfig_def ReadFile_def emit_def stub_env_def world0_def)
  have fields: "Config.URL stub_config = ''http://x''" "Config.Username stub_config = ''u''"
    "Config.APIKey stub_config = ''k''" "Config.DB stub_config = ''d''"
    by (simp_all add: stub_config_def)
  from NewConnectorFromConfig_composition [of stub_env "''config.json''" world0] ok
  have "NewConnectorFromConfig stub_env ''config.json'' world0 =
          NewConnector stub_env ''http://x'' ''u'' ''k'' ''d''
            \<lparr>trace = [ReadFile_ev ''config.json''], transports = 0\<rparr>"
    by (simp add: fields)
  moreover
  from NewConnectorFromConfig_composition [of stub_env "''missing.json''" world0] missing
  have "NewConnectorFromConfig stub_env ''missing.json'' world0 =
     Return ((None, Some (Wrapf ''failed to read config file: ''
                            (Errorf ''open: no such file or directory''))),
       \<lparr>trace = [ReadFile_ev ''missing.json''], transports = 0\<rparr>)"
    by simp
  ultimately show ?thesis
    using ok missing by (simp add: NewConnector_stub)
qed

lemma NewConnector_cases:
  assumes "NewConnector E url username apiKey db w = Return ((Some c, None), w')"
  obtains cl1 cl2 uid where
    "xmlrpc_NewClient E (trace w) (url @ ''/xmlrpc/2/common'') (transports w) = Inr cl1"
    "xmlrpc_NewClient E (trace w @ [NewClient_ev (url @ ''/xmlrpc/2/common'') (transports w)])
       (url @ ''/xmlrpc/2/object'') (transports w) = Inr cl2"
    "Call_int E (trace w @ [NewClient_ev (url @ ''/xmlrpc/2/common'') (transports w),
                            NewClient_ev (url @ ''/xmlrpc/2/object'') (transports w)])
       cl1 ''authenticate'' [VString db, VString username, VString apiKey, VStringMap (Some [])]
     = Inr uid"
    "uid \<noteq> 0"
    "c = \<lparr>URL = url, Username = username, APIKey = apiKey, DB = db, UID = uid,
          common = Some cl1, models = Some cl2\<rparr>"
    "w' = w\<lparr>trace := trace w @
              [NewClient_ev (url @ ''/xmlrpc/2/common'') (transports w),
               NewClient_ev (url @ ''/xmlrpc/2/object'') (transports w),
               Call_ev cl1 ''authenticate''
                 [VString db, VString username, VString apiKey, VStringMap (Some [])],
               Log_ev (''Successfully initialized Odoo connector with UID: '' @ fmt_d uid)],
            transports := Suc (transports w)\<rparr>"
proof (cases "xmlrpc_NewClient E (trace w) (url @ ''/xmlrpc/2/common'') (transports w)")
  case (Inl err)
  with assms show ?thesis
    by (simp add: NewConnector_common_fails)
next
  case (Inr cl1)
  note first = this
  show ?thesis
  proof (cases "xmlrpc_NewClient E
                  (trace w @ [NewClient_ev (url @ ''/xmlrpc/2/common'') (transports w)])
                  (url @ ''/xmlrpc/2/object'') (transports w)")
    case (Inl err)
    with first assms show ?thesis
      by (simp add: NewConnector_models_fails)
  next
    case (Inr cl2)
    note second = this
    show ?thesis
    proof (cases "Call_int E (trace w @ [NewClient_ev (url @ ''/xmlrpc/2/common'') (transports w),
                                         NewClient_ev (url @ ''/xmlrpc/2/object'') (transports w)])
                    cl1 ''authenticate''
                    [VString db, VString username, VString apiKey, VStringMap (Some [])]")
      case (Inl err)
      with assms show ?thesis
        by (simp add: NewConnector_authenticates [OF first second] Let_def)
    next
      case (Inr uid)
      with assms that [OF first second Inr] show ?thesis
        by (auto simp add: NewConnector_authenticates [OF first second] Let_def split: if_splits)
    qed
  qed
qed

text \<open>
  Claim C2, as the code has it. A Connector that \<^verbatim>\<open>NewConnector\<close> returns stores the
  integer that the \<^verbatim>\<open>authenticate\<close> call answered, and that integer is not zero. When
  both endpoints are established and \<^verbatim>\<open>authenticate\<close> answers 0, construction returns no
  Connector and the error "authentication failed: invalid credentials".
\<close>

theorem NewConnector_session_nonzero:
  "(\<forall>c w'. NewConnector E url username apiKey db w = Return ((Some c, None), w') \<longrightarrow>
       UID c \<noteq> 0
     \<and> (\<exists>cl1. common c = Some cl1
          \<and> Call_int E (trace w @ [NewClient_ev (url @ ''/xmlrpc/2/common'') (transports w),
                                   NewClient_ev (url @ ''/xmlrpc/2/object'') (transports w)])
              cl1 ''authenticate''
              [VString db, VString username, VString apiKey, VStringMap (Some [])]
            = Inr (UID c)))
 \<and> (\<forall>cl1 cl2.
       xmlrpc_NewClient E (trace w) (url @ ''/xmlrpc/2/common'') (transports w) = Inr cl1 \<longrightarrow>
       xmlrpc_NewClient E (trace w @ [NewClient_ev (url @ ''/xmlrpc/2/common'') (transports w)])
         (url @ ''/xmlrpc/2/object'') (transports w) = Inr cl2 \<longrightarrow>
       Call_int E (trace w @ [NewClient_ev (url @ ''/xmlrpc/2/common'') (transports w),
                              NewClient_ev (url @ ''/xmlrpc/2/object'') (transports w)])
         cl1 ''authenticate'' [VString db, VString username, VString apiKey, VStringMap (Some [])]
         = Inr 0 \<longrightarrow>
       NewConnector E url username apiKey db w =
         Return ((None, Some (Errorf ''authentication failed: invalid credentials'')),
           w\<lparr>trace := trace w @
                [NewClient_ev (url @ ''/xmlrpc/2/common'') (transports w),
                 NewClient_ev (url @ ''/xmlrpc/2/object'') (transports w),
                 Call_ev cl1 ''authenticate''
                   [VString db, VString username, VString apiKey, VStringMap (Some [])]],
             transports := Suc (transports w)\<rparr>))"
proof (intro conjI allI impI)
  fix c w'
  assume run: "NewConnector E url username apiKey db w = Return ((Some c, None), w')"
  then show "UID c \<noteq> 0"
    by (rule NewConnector_cases) simp
  from run show "\<exists>cl1. common c = Some cl1
          \<and> Call_int E (trace w @ [NewClient_ev (url @ ''/xmlrpc/2/common'') (transports w),
                                   NewClient_ev (url @ ''/xmlrpc/2/object'') (transports w)])
              cl1 ''authenticate''
              [VString db, VString username, VString apiKey, VStringMap (Some [])]
            = Inr (UID c)"
    by (rule NewConnector_cases) simp
next
  fix cl1 cl2
  assume first: "xmlrpc_NewClient E (trace w) (url @ ''/xmlrpc/2/common'') (transports w) = Inr cl1"
    and second: "xmlrpc_NewClient E
                   (trace w @ [NewClient_ev (url @ ''/xmlrpc/2/common'') (transports w)])
                   (url @ ''/xmlrpc/2/object'') (transports w) = Inr cl2"
    and zero: "Call_int E (trace w @ [NewClient_ev (url @ ''/xmlrpc/2/common'') (transports w),
                                      NewClient_ev (url @ ''/xmlrpc/2/object'') (transports w)])
                 cl1 ''authenticate''
                 [VString db, VString username, VString apiKey, VStringMap (Some [])] = Inr 0"
  show "NewConnector E url username apiKey db w =
         Return ((None, Some (Errorf ''authentication failed: invalid credentials'')),
           w\<lparr>trace := trace w @
                [NewClient_ev (url @ ''/xmlrpc/2/common'') (transports w),
                 NewClient_ev (url @ ''/xmlrpc/2/object'') (transports w),
                 Call_ev cl1 ''authenticate''
                   [VString db, VString username, VString apiKey, VStringMap (Some [])]],
             transports := Suc (transports w)\<rparr>)"
    by (simp add: NewConnector_authenticates [OF first second] Let_def zero)
qed

lemma NewConnector_env_uid:
  "NewConnector (env_uid n) ''http://x'' ''u'' ''k'' ''d'' world0 =
     (if n = 0 then
        Return ((None, Some (Errorf ''authentication failed: invalid credentials'')),
          \<lparr>trace =
             [NewClient_ev ''http://x/xmlrpc/2/common'' 0,
              NewClient_ev ''http://x/xmlrpc/2/object'' 0,
              Call_ev 0 ''authenticate''
                [VString ''d'', VString ''u'', VString ''k'', VStringMap (Some [])]],
           transports = 1\<rparr>)
      else
        Return ((Some (stub_connector\<lparr>UID := n\<rparr>), None),
          \<lparr>trace =
             [NewClient_ev ''http://x/xmlrpc/2/common'' 0,
              NewClient_ev ''http://x/xmlrpc/2/object'' 0,
              Call_ev 0 ''authenticate''
                [VString ''d'', VString ''u'', VString ''k'', VStringMap (Some [])],
              Log_ev (''Successfully initialized Odoo connector with UID: '' @ fmt_d n)],
           transports = 1\<rparr>))"
proof -
  have a: "xmlrpc_NewClient (env_uid n) (trace world0) (''http://x'' @ ''/xmlrpc/2/common'')
             (transports world0) = Inr 0"
    by (simp add: env_uid_def stub_env_def world0_def)
  have b: "xmlrpc_NewClient (env_uid n)
             (trace world0 @ [NewClient_ev (''http://x'' @ ''/xmlrpc/2/common'') (transports world0)])
             (''http://x'' @ ''/xmlrpc/2/object'') (transports world0) = Inr 1"
    by (simp add: env_uid_def stub_env_def world0_def)
  have c: "Call_int (env_uid n) = (\<lambda>tr cl serviceMethod args. Inr n)"
    by (simp add: env_uid_def)
  show ?thesis
    unfolding NewConnector_authenticates [OF a b]
    by (simp add: Let_def c world0_def stub_connector_def)
qed

text \<open>
  The claim as stated asks for a positive session identifier. A server that answers
  \<open>- 1\<close> to \<^verbatim>\<open>authenticate\<close> gets a Connector whose UID is \<open>- 1\<close>: the constructor
  compares the answer with zero only.
\<close>

theorem NewConnector_negative_session:
  "NewConnector (env_uid (- 1)) ''http://x'' ''u'' ''k'' ''d'' world0 =
     Return ((Some (stub_connector\<lparr>UID := - 1\<rparr>), None),
       \<lparr>trace =
          [NewClient_ev ''http://x/xmlrpc/2/common'' 0,
           NewClient_ev ''http://x/xmlrpc/2/object'' 0,
           Call_ev 0 ''authenticate''
             [VString ''d'', VString ''u'', VString ''k'', VStringMap (Some [])],
           Log_ev ''Successfully initialized Odoo connector with UID: -1''],
        transports = 1\<rparr>)
   \<and> UID (stub_connector\<lparr>UID := - 1\<rparr>) = - 1
   \<and> \<not> 0 < UID (stub_connector\<lparr>UID := - 1\<rparr>)"
  by (simp add: NewConnector_env_uid fmt_d_minus_1)

text \<open>Session 7 is stored; the answer 0 is refused.\<close>

theorem NewConnector_session_nonzero_witness:
  "NewConnector (env_uid 7) ''http://x'' ''u'' ''k'' ''d'' world0 =
     Return ((Some (stub_connector\<lparr>UID := 7\<rparr>), None),
       \<lparr>trace =
          [NewClient_ev ''http://x/xmlrpc/2/common'' 0,
           NewClient_ev ''http://x/xmlrpc/2/object'' 0,
           Call_ev 0 ''authenticate''
             [VString ''d'', VString ''u'', VString ''k'', VStringMap (Some [])],
           Log_ev ''Successfully initialized Odoo connector with UID: 7''],
        transports = 1\<rparr>)
   \<and> UID (stub_connector\<lparr>UID := 7\<rparr>) \<noteq> 0
   \<and> xmlrpc_NewClient (env_uid 0) (trace world0) (''http://x'' @ ''/xmlrpc/2/common'')
        (transports world0) = Inr 0
   \<and> xmlrpc_NewClient (env_uid 0)
        (trace world0 @ [NewClient_ev (''http://x'' @ ''/xmlrpc/2/common'') (transports world0)])
        (''http://x'' @ ''/xmlrpc/2/object'') (transports world0) = Inr 1
   \<and> Call_int (env_uid 0)
        (trace world0 @ [NewClient_ev (''http://x'' @ ''/xmlrpc/2/common'') (transports world0),
                         NewClient_ev (''http://x'' @ ''/xmlrpc/2/object'') (transports world0)])
        0 ''authenticate'' [VString ''d'', VString ''u'', VString ''k'', VStringMap (Some [])]
      = Inr 0
   \<and> NewConnector (env_uid 0) ''http://x'' ''u'' ''k'' ''d'' world0 =
       Return ((None, Some (Errorf ''authentication failed: invalid credentials'')),
         \<lparr>trace =
            [NewClient_ev ''http://x/xmlrpc/2/common'' 0,
             NewClient_ev ''http://x/xmlrpc/2/object'' 0,
             Call_ev 0 ''authenticate''
               [VString ''d'', VString ''u'', VString ''k'', VStringMap (Some [])]],
          transports = 1\<rparr>)"
proof -
  have run7: "NewConnector (env_uid 7) ''http://x'' ''u'' ''k'' ''d'' world0 =
     Return ((Some (stub_connector\<lparr>UID := 7\<rparr>), None),
       \<lparr>trace =
          [NewClient_ev ''http://x/xmlrpc/2/common'' 0,
           NewClient_ev ''http://x/xmlrpc/2/object'' 0,
           Call_ev 0 ''authenticate''
             [VString ''d'', VString ''u'', VString ''k'', VStringMap (Some [])],
           Log_ev ''Successfully initialized Odoo connector with UID: 7''],
        transports = 1\<rparr>)"
    by (simp add: NewConnector_env_uid fmt_d_7)
  have a: "xmlrpc_NewClient (env_uid 0) (trace world0) (''http://x'' @ ''/xmlrpc/2/common'')
             (transports world0) = Inr 0"
    by (simp add: env_uid_def stub_env_def world0_def)
  have b: "xmlrpc_NewClient (env_uid 0)
             (trace world0 @ [NewClient_ev (''http://x'' @ ''/xmlrpc/2/common'') (transports world0)])
             (''http://x'' @ ''/xmlrpc/2/object'') (transports world0) = Inr 1"
    by (simp add: env_uid_def stub_env_def world0_def)
  have c: "Call_int (env_uid 0)
        (trace world0 @ [NewClient_ev (''http://x'' @ ''/xmlrpc/2/common'') (transports world0),
                         NewClient_ev (''http://x'' @ ''/xmlrpc/2/object'') (transports world0)])
        0 ''authenticate'' [VString ''d'', VString ''u'', VString ''k'', VStringMap (Some [])]
      = Inr 0"
    by (simp add: env_uid_def)
  from NewConnector_session_nonzero [of "env_uid 7" "''http://x''" "''u''" "''k''" "''d''" world0]
    run7
  have nz: "UID (stub_connector\<lparr>UID := 7\<rparr>) \<noteq> 0"
    by blast
  from NewConnector_session_nonzero [of "env_uid 0" "''http://x''" "''u''" "''k''" "''d''" world0]
    a b c
  have run0: "NewConnector (env_uid 0) ''http://x'' ''u'' ''k'' ''d'' world0 =
       Return ((None, Some (Errorf ''authentication failed: invalid credentials'')),
         world0\<lparr>trace := trace world0 @
            [NewClient_ev (''http://x'' @ ''/xmlrpc/2/common'') (transports world0),
             NewClient_ev (''http://x'' @ ''/xmlrpc/2/object'') (transports world0),
             Call_ev 0 ''authenticate''
               [VString ''d'', VString ''u'', VString ''k'', VStringMap (Some [])]],
          transports := Suc (transports world0)\<rparr>)"
    by blast
  from run7 nz a b c run0 show ?thesis
    by (simp add: world0_def)
qed

text \<open>
  Claim C8. \<^verbatim>\<open>NewConnector\<close> asks for the session endpoint at the base URL followed by
  \<^verbatim>\<open>/xmlrpc/2/common\<close> and then for the data endpoint at the base URL followed by
  \<^verbatim>\<open>/xmlrpc/2/object\<close>, both with the one transport it has just allocated. If the first
  cannot be established it returns the error "failed to connect to common endpoint"
  wrapping the cause and asks for nothing more; if the second cannot, the error "failed
  to connect to models endpoint". A Connector that is returned holds the two handles, and
  the run has established exactly these two endpoints; no run establishes any other.
\<close>

theorem NewConnector_endpoints:
  "let t = transports w;
       ev1 = NewClient_ev (url @ ''/xmlrpc/2/common'') t;
       ev2 = NewClient_ev (url @ ''/xmlrpc/2/object'') t;
       a1 = xmlrpc_NewClient E (trace w) (url @ ''/xmlrpc/2/common'') t;
       a2 = xmlrpc_NewClient E (trace w @ [ev1]) (url @ ''/xmlrpc/2/object'') t
   in (\<forall>err. a1 = Inl err \<longrightarrow>
         NewConnector E url username apiKey db w =
           Return ((None, Some (Wrapf ''failed to connect to common endpoint: '' err)),
             w\<lparr>trace := trace w @ [ev1], transports := Suc t\<rparr>))
    \<and> (\<forall>cl1 err. a1 = Inr cl1 \<longrightarrow> a2 = Inl err \<longrightarrow>
         NewConnector E url username apiKey db w =
           Return ((None, Some (Wrapf ''failed to connect to models endpoint: '' err)),
             w\<lparr>trace := trace w @ [ev1, ev2], transports := Suc t\<rparr>))
    \<and> (\<forall>c w'. NewConnector E url username apiKey db w = Return ((Some c, None), w') \<longrightarrow>
         filter is_NewClient (added w w') = [ev1, ev2]
       \<and> (\<exists>cl1 cl2. a1 = Inr cl1 \<and> a2 = Inr cl2 \<and> common c = Some cl1 \<and> models c = Some cl2))
    \<and> (\<exists>r w'. NewConnector E url username apiKey db w = Return (r, w')
         \<and> transports w' = Suc t
         \<and> (filter is_NewClient (added w w') = [ev1]
            \<or> filter is_NewClient (added w w') = [ev1, ev2]))"
proof -
  let ?t = "transports w"
  let ?ev1 = "NewClient_ev (url @ ''/xmlrpc/2/common'') ?t"
  let ?ev2 = "NewClient_ev (url @ ''/xmlrpc/2/object'') ?t"
  let ?a1 = "xmlrpc_NewClient E (trace w) (url @ ''/xmlrpc/2/common'') ?t"
  let ?a2 = "xmlrpc_NewClient E (trace w @ [?ev1]) (url @ ''/xmlrpc/2/object'') ?t"
  have p1: "NewConnector E url username apiKey db w =
           Return ((None, Some (Wrapf ''failed to connect to common endpoint: '' err)),
             w\<lparr>trace := trace w @ [?ev1], transports := Suc ?t\<rparr>)"
    if "?a1 = Inl err" for err
    using that by (rule NewConnector_common_fails)
  have p2: "NewConnector E url username apiKey db w =
           Return ((None, Some (Wrapf ''failed to connect to models endpoint: '' err)),
             w\<lparr>trace := trace w @ [?ev1, ?ev2], transports := Suc ?t\<rparr>)"
    if "?a1 = Inr cl1" and "?a2 = Inl err" for cl1 err
    using that by (rule NewConnector_models_fails)
  have p3: "filter is_NewClient (added w w') = [?ev1, ?ev2]
       \<and> (\<exists>cl1 cl2. ?a1 = Inr cl1 \<and> ?a2 = Inr cl2 \<and> common c = Some cl1 \<and> models c = Some cl2)"
    if "NewConnector E url username apiKey db w = Return ((Some c, None), w')" for c w'
    using that by (rule NewConnector_cases) (simp add: added_def)
  have p4: "\<exists>r w'. NewConnector E url username apiKey db w = Return (r, w')
         \<and> transports w' = Suc ?t
         \<and> (filter is_NewClient (added w w') = [?ev1]
            \<or> filter is_NewClient (added w w') = [?ev1, ?ev2])"
  proof (cases ?a1)
    case (Inl err)
    then show ?thesis
      by (simp add: p1 added_def)
  next
    case (Inr cl1)
    note first = this
    show ?thesis
    proof (cases ?a2)
      case (Inl err)
      with first show ?thesis
        by (simp add: p2 added_def)
    next
      case (Inr cl2)
      with first show ?thesis
        by (simp add: NewConnector_authenticates Let_def added_def split: sum.splits)
    qed
  qed
  from p1 p2 p3 p4 show ?thesis
    unfolding Let_def by blast
qed

text \<open>
  A base URL whose session endpoint is refused, one whose data endpoint is refused, and the
  stub server, where both endpoints are established on transport 0.
\<close>

theorem NewConnector_endpoints_witness:
  "NewConnector (env_no_endpoint ''/xmlrpc/2/common'') ''http://x'' ''u'' ''k'' ''d'' world0 =
     Return ((None, Some (Wrapf ''failed to connect to common endpoint: ''
                            (Errorf ''malformed URL''))),
       \<lparr>trace = [NewClient_ev ''http://x/xmlrpc/2/common'' 0], transports = 1\<rparr>)
 \<and> NewConnector (env_no_endpoint ''/xmlrpc/2/object'') ''http://x'' ''u'' ''k'' ''d'' world0 =
     Return ((None, Some (Wrapf ''failed to connect to models endpoint: ''
                            (Errorf ''malformed URL''))),
       \<lparr>trace = [NewClient_ev ''http://x/xmlrpc/2/common'' 0,
                  NewClient_ev ''http://x/xmlrpc/2/object'' 0],
        transports = 1\<rparr>)
 \<and> NewConnector stub_env ''http://x'' ''u'' ''k'' ''d'' world0 =
     Return ((Some stub_connector, None),
       \<lparr>trace =
          [NewClient_ev ''http://x/xmlrpc/2/common'' 0,
           NewClient_ev ''http://x/xmlrpc/2/object'' 0,
           Call_ev 0 ''authenticate''
             [VString ''d'', VString ''u'', VString ''k'', VStringMap (Some [])],
           Log_ev ''Successfully initialized Odoo connector with UID: 7''],
        transports = 1\<rparr>)
 \<and> filter is_NewClient
      (added world0
         \<lparr>trace =
            [NewClient_ev ''http://x/xmlrpc/2/common'' 0,
             NewClient_ev ''http://x/xmlrpc/2/object'' 0,
             Call_ev 0 ''authenticate''
               [VString ''d'', VString ''u'', VString ''k'', VStringMap (Some [])],
             Log_ev ''Successfully initialized Odoo connector with UID: 7''],
          transports = 1\<rparr>) =
     [NewClient_ev ''http://x/xmlrpc/2/common'' 0, NewClient_ev ''http://x/xmlrpc/2/object'' 0]"
proof -
  note ends = NewConnector_endpoints [unfolded Let_def, where w = world0 and url = "''http://x''"
                and username = "''u''" and apiKey = "''k''" and db = "''d''"]
  have no_common:
    "xmlrpc_NewClient (env_no_endpoint ''/xmlrpc/2/common'') (trace world0)
       (''http://x'' @ ''/xmlrpc/2/common'') (transports world0) = Inl (Errorf ''malformed URL'')"
    by (simp add: env_no_endpoint_def)
  have common_ok:
    "xmlrpc_NewClient (env_no_endpoint ''/xmlrpc/2/object'') (trace world0)
       (''http://x'' @ ''/xmlrpc/2/common'') (transports world0) = Inr 0"
    by (simp add: env_no_endpoint_def world0_def)
  have no_object:
    "xmlrpc_NewClient (env_no_endpoint ''/xmlrpc/2/object'')
       (trace world0 @ [NewClient_ev (''http://x'' @ ''/xmlrpc/2/common'') (transports world0)])
       (''http://x'' @ ''/xmlrpc/2/object'') (transports world0) = Inl (Errorf ''malformed URL'')"
    by (simp add: env_no_endpoint_def)
  have run: "NewConnector stub_env ''http://x'' ''u'' ''k'' ''d'' world0 =
     Return ((Some stub_connector, None),
       \<lparr>trace =
          [NewClient_ev ''http://x/xmlrpc/2/common'' 0,
           NewClient_ev ''http://x/xmlrpc/2/object'' 0,
           Call_ev 0 ''authenticate''
             [VString ''d'', VString ''u'', VString ''k'', VStringMap (Some [])],
           Log_ev ''Successfully initialized Odoo connector with UID: 7''],
        transports = 1\<rparr>)"
    by (simp add: world0_def NewConnector_stub stub_connector_def)
  from ends [where E = "env_no_endpoint ''/xmlrpc/2/common''"] no_common
  have r1: "NewConnector (env_no_endpoint ''/xmlrpc/2/common'') ''http://x'' ''u'' ''k'' ''d'' world0 =
     Return ((None, Some (Wrapf ''failed to connect to common endpoint: ''
                            (Errorf ''malformed URL''))),
       world0\<lparr>trace := trace world0 @
                 [NewClient_ev (''http://x'' @ ''/xmlrpc/2/common'') (transports world0)],
               transports := Suc (transports world0)\<rparr>)"
    by blast
  from ends [where E = "env_no_endpoint ''/xmlrpc/2/object''"] common_ok no_object
  have r2: "NewConnector (env_no_endpoint ''/xmlrpc/2/object'') ''http://x'' ''u'' ''k'' ''d'' world0 =
     Return ((None, Some (Wrapf ''failed to connect to models endpoint: ''
                            (Errorf ''malformed URL''))),
       world0\<lparr>trace := trace world0 @
                 [NewClient_ev (''http://x'' @ ''/xmlrpc/2/common'') (transports world0),
                  NewClient_ev (''http://x'' @ ''/xmlrpc/2/object'') (transports world0)],
               transports := Suc (transports world0)\<rparr>)"
    by blast
  from ends [where E = stub_env] run
  have r3: "filter is_NewClient
      (added world0
         \<lparr>trace =
            [NewClient_ev ''http://x/xmlrpc/2/common'' 0,
             NewClient_ev ''http://x/xmlrpc/2/object'' 0,
             Call_ev 0 ''authenticate''
               [VString ''d'', VString ''u'', VString ''k'', VStringMap (Some [])],
             Log_ev ''Successfully initialized Odoo connector with UID: 7''],
          transports = 1\<rparr>) =
     [NewClient_ev (''http://x'' @ ''/xmlrpc/2/common'') (transports world0),
      NewClient_ev (''http://x'' @ ''/xmlrpc/2/object'') (transports world0)]"
    by blast
  from r1 r2 run r3 show ?thesis
    by (simp add: world0_def)
qed

subsection \<open>The Connector over its life\<close>

text \<open>
  Claim C9. Whatever a record operation returns, with or without an error, the Connector
  after the call is the Connector before it: URL, Username, APIKey, DB, UID and both
  handles are the same. UID is assigned by the constructor: the Connector that
  \<^verbatim>\<open>NewConnector\<close> returns holds the four strings it was given, the two handles it
  established and, as UID, the integer that the \<^verbatim>\<open>authenticate\<close> call answered; after any
  record operation on that Connector, in any later world, UID is still that integer.
\<close>

theorem operations_keep_Connector:
  "(\<forall>r c' w'. SearchReadRecords E c model opts w = Return (r, c', w') \<longrightarrow> c' = c)
 \<and> (\<forall>r c' w'. CreateRecord E c model values w = Return (r, c', w') \<longrightarrow> c' = c)
 \<and> (\<forall>r c' w'. UpdateRecord E c model rid values w = Return (r, c', w') \<longrightarrow> c' = c)
 \<and> (\<forall>r c' w'. DeleteRecord E c model rid w = Return (r, c', w') \<longrightarrow> c' = c)
 \<and> (\<forall>r c' w'. ExecuteMethod E c model method args kwargs w = Return (r, c', w') \<longrightarrow> c' = c)
 \<and> (\<forall>c0 w0. NewConnector E url username apiKey db wi = Return ((Some c0, None), w0) \<longrightarrow>
       (\<exists>cl1 cl2 uid.
           Call_int E (trace wi @ [NewClient_ev (url @ ''/xmlrpc/2/common'') (transports wi),
                                   NewClient_ev (url @ ''/xmlrpc/2/object'') (transports wi)])
             cl1 ''authenticate''
             [VString db, VString username, VString apiKey, VStringMap (Some [])] = Inr uid
         \<and> c0 = \<lparr>URL = url, Username = username, APIKey = apiKey, DB = db, UID = uid,
                   common = Some cl1, models = Some cl2\<rparr>
         \<and> (\<forall>r c' w'. SearchReadRecords E c0 model opts w = Return (r, c', w') \<longrightarrow> UID c' = uid)
         \<and> (\<forall>r c' w'. CreateRecord E c0 model values w = Return (r, c', w') \<longrightarrow> UID c' = uid)
         \<and> (\<forall>r c' w'. UpdateRecord E c0 model rid values w = Return (r, c', w') \<longrightarrow> UID c' = uid)
         \<and> (\<forall>r c' w'. DeleteRecord E c0 model rid w = Return (r, c', w') \<longrightarrow> UID c' = uid)
         \<and> (\<forall>r c' w'. ExecuteMethod E c0 model method args kwargs w = Return (r, c', w')
                \<longrightarrow> UID c' = uid)))"
proof -
  have search: "c' = c" if "SearchReadRecords E c model opts w = Return (r, c', w')"
    for c r c' w'
    using that
    by (cases "models c")
       (auto simp add: SearchReadRecords_def Call_def Let_def split: sum.splits if_splits)
  have create: "c' = c" if "CreateRecord E c model values w = Return (r, c', w')"
    for c r c' w'
    using that
    by (cases "models c") (auto simp add: CreateRecord_def Call_def split: sum.splits)
  have update: "c' = c" if "UpdateRecord E c model rid values w = Return (r, c', w')"
    for c r c' w'
    using that
    by (cases "models c")
       (auto simp add: UpdateRecord_def Call_def split: sum.splits if_splits)
  have delete: "c' = c" if "DeleteRecord E c model rid w = Return (r, c', w')"
    for c r c' w'
    using that
    by (cases "models c")
       (auto simp add: DeleteRecord_def Call_def split: sum.splits if_splits)
  have execute: "c' = c" if "ExecuteMethod E c model method args kwargs w = Return (r, c', w')"
    for c r c' w'
    using that
    by (cases "models c")
       (auto simp add: ExecuteMethod_def Call_def Let_def split: sum.splits if_splits)
  have construct:
    "\<exists>cl1 cl2 uid.
       Call_int E (trace wi @ [NewClient_ev (url @ ''/xmlrpc/2/common'') (transports wi),
                               NewClient_ev (url @ ''/xmlrpc/2/object'') (transports wi)])
         cl1 ''authenticate''
         [VString db, VString username, VString apiKey, VStringMap (Some [])] = Inr uid
     \<and> c0 = \<lparr>URL = url, Username = username, APIKey = apiKey, DB = db, UID = uid,
               common = Some cl1, models = Some cl2\<rparr>
     \<and> (\<forall>r c' w'. SearchReadRecords E c0 model opts w = Return (r, c', w') \<longrightarrow> UID c' = uid)
     \<and> (\<forall>r c' w'. CreateRecord E c0 model values w = Return (r, c', w') \<longrightarrow> UID c' = uid)
     \<and> (\<forall>r c' w'. UpdateRecord E c0 model rid values w = Return (r, c', w') \<longrightarrow> UID c' = uid)
     \<and> (\<forall>r c' w'. DeleteRecord E c0 model rid w = Return (r, c', w') \<longrightarrow> UID c' = uid)
     \<and> (\<forall>r c' w'. ExecuteMethod E c0 model method args kwargs w = Return (r, c', w')
            \<longrightarrow> UID c' = uid)"
    if run: "NewConnector E url username apiKey db wi = Return ((Some c0, None), w0)" for c0 w0
  proof -
    from run obtain cl1 cl2 uid where
      reply: "Call_int E (trace wi @ [NewClient_ev (url @ ''/xmlrpc/2/common'') (transports wi),
                                      NewClient_ev (url @ ''/xmlrpc/2/object'') (transports wi)])
                cl1 ''authenticate''
                [VString db, VString username, VString apiKey, VStringMap (Some [])] = Inr uid"
      and c0: "c0 = \<lparr>URL = url, Username = username, APIKey = apiKey, DB = db, UID = uid,
                      common = Some cl1, models = Some cl2\<rparr>"
      by (rule NewConnector_cases)
    from c0 have uid: "UID c0 = uid"
      by simp
    from search [of c0] uid
    have 1: "\<forall>r c' w'. SearchReadRecords E c0 model opts w = Return (r, c', w') \<longrightarrow> UID c' = uid"
      by blast
    from create [of c0] uid
    have 2: "\<forall>r c' w'. CreateRecord E c0 model values w = Return (r, c', w') \<longrightarrow> UID c' = uid"
      by blast
    from update [of c0] uid
    have 3: "\<forall>r c' w'. UpdateRecord E c0 model rid values w = Return (r, c', w') \<longrightarrow> UID c' = uid"
      by blast
    from delete [of c0] uid
    have 4: "\<forall>r c' w'. DeleteRecord E c0 model rid w = Return (r, c', w') \<longrightarrow> UID c' = uid"
      by blast
    from execute [of c0] uid
    have 5: "\<forall>r c' w'. ExecuteMethod E c0 model method args kwargs w = Return (r, c', w')
               \<longrightarrow> UID c' = uid"
      by blast
    from reply c0 1 2 3 4 5 show ?thesis
      by blast
  qed
  from search [of c] create [of c] update [of c] delete [of c] execute [of c] construct
  show ?thesis
    by (intro conjI allI impI) blast+
qed


text \<open>
  One successful and one failing run of each kind on the Connector of session 7, and the
  construction of that Connector by the stub server, whose answer 7 is the UID every
  later operation still sees.
\<close>

theorem operations_keep_Connector_witness:
  "(\<exists>r w'. SearchReadRecords env_fault stub_connector ''crm.lead'' stub_opts world0 =
             Return ((None, Some r), stub_connector, w'))
 \<and> (\<exists>w'. CreateRecord stub_env stub_connector ''crm.lead'' stub_values world0 =
             Return ((42, None), stub_connector, w'))
 \<and> (\<exists>r w'. UpdateRecord env_false stub_connector ''crm.lead'' 5 stub_values world0 =
             Return (Some r, stub_connector, w'))
 \<and> (\<exists>w'. DeleteRecord stub_env stub_connector ''crm.lead'' 5 world0 =
             Return (None, stub_connector, w'))
 \<and> (\<exists>w'. ExecuteMethod stub_env stub_connector ''crm.lead'' ''action_set_won'' None None world0 =
             Return ((VString ''done'', None), stub_connector, w'))
 \<and> NewConnector stub_env ''http://x'' ''u'' ''k'' ''d'' world0 =
       Return ((Some stub_connector, None),
         \<lparr>trace =
            [NewClient_ev ''http://x/xmlrpc/2/common'' 0,
             NewClient_ev ''http://x/xmlrpc/2/object'' 0,
             Call_ev 0 ''authenticate''
               [VString ''d'', VString ''u'', VString ''k'', VStringMap (Some [])],
             Log_ev ''Successfully initialized Odoo connector with UID: 7''],
          transports = 1\<rparr>)
 \<and> Call_int stub_env
       [NewClient_ev ''http://x/xmlrpc/2/common'' 0, NewClient_ev ''http://x/xmlrpc/2/object'' 0]
       0 ''authenticate'' [VString ''d'', VString ''u'', VString ''k'', VStringMap (Some [])]
     = Inr (UID stub_connector)
 \<and> UID stub_connector = 7
 \<and> (\<exists>c' w'. CreateRecord stub_env stub_connector ''crm.lead'' stub_values world0 =
               Return ((42, None), c', w') \<and> UID c' = 7)"
proof -
  have a: "\<exists>r c' w'. SearchReadRecords env_fault stub_connector ''crm.lead'' stub_opts world0 =
             Return ((None, Some r), c', w')"
    by (simp add: SearchReadRecords_def Call_def env_fault_def stub_env_def stub_connector_def
          stub_opts_def)
  have b: "\<exists>c' w'. CreateRecord stub_env stub_connector ''crm.lead'' stub_values world0 =
             Return ((42, None), c', w')"
    by (simp add: CreateRecord_def Call_def stub_env_def stub_connector_def)
  have c: "\<exists>r c' w'. UpdateRecord env_false stub_connector ''crm.lead'' 5 stub_values world0 =
             Return (Some r, c', w')"
    by (simp add: UpdateRecord_def Call_def env_false_def stub_env_def stub_connector_def)
  have d: "\<exists>c' w'. DeleteRecord stub_env stub_connector ''crm.lead'' 5 world0 =
             Return (None, c', w')"
    by (simp add: DeleteRecord_def Call_def stub_env_def stub_connector_def)
  have e: "\<exists>c' w'. ExecuteMethod stub_env stub_connector ''crm.lead'' ''action_set_won'' None None
               world0 = Return ((VString ''done'', None), c', w')"
    by (simp add: ExecuteMethod_def Call_def stub_env_def stub_connector_def)
  have run: "NewConnector stub_env ''http://x'' ''u'' ''k'' ''d'' world0 =
       Return ((Some stub_connector, None),
         \<lparr>trace =
            [NewClient_ev ''http://x/xmlrpc/2/common'' 0,
             NewClient_ev ''http://x/xmlrpc/2/object'' 0,
             Call_ev 0 ''authenticate''
               [VString ''d'', VString ''u'', VString ''k'', VStringMap (Some [])],
             Log_ev ''Successfully initialized Odoo connector with UID: 7''],
          transports = 1\<rparr>)"
    by (simp add: world0_def NewConnector_stub stub_connector_def)
  note keep_ok = operations_keep_Connector [of stub_env stub_connector "''crm.lead''" stub_opts
                   world0 stub_values 5 "''action_set_won''" None None
                   "''http://x''" "''u''" "''k''" "''d''" world0]
  note keep_fault = operations_keep_Connector [of env_fault stub_connector "''crm.lead''" stub_opts
                      world0 stub_values 5 "''action_set_won''" None None
                      "''http://x''" "''u''" "''k''" "''d''" world0]
  note keep_false = operations_keep_Connector [of env_false stub_connector "''crm.lead''" stub_opts
                      world0 stub_values 5 "''action_set_won''" None None
                      "''http://x''" "''u''" "''k''" "''d''" world0]
  from a keep_fault
  have a': "\<exists>r w'. SearchReadRecords env_fault stub_connector ''crm.lead'' stub_opts world0 =
             Return ((None, Some r), stub_connector, w')"
    by blast
  from b keep_ok
  have b': "\<exists>w'. CreateRecord stub_env stub_connector ''crm.lead'' stub_values world0 =
             Return ((42, None), stub_connector, w')"
    by blast
  from c keep_false
  have c': "\<exists>r w'. UpdateRecord env_false stub_connector ''crm.lead'' 5 stub_values world0 =
             Return (Some r, stub_connector, w')"
    by blast
  from d keep_ok
  have d': "\<exists>w'. DeleteRecord stub_env stub_connector ''crm.lead'' 5 world0 =
             Return (None, stub_connector, w')"
    by blast
  from e keep_ok
  have e': "\<exists>w'. ExecuteMethod stub_env stub_connector ''crm.lead'' ''action_set_won'' None None
               world0 = Return ((VString ''done'', None), stub_connector, w')"
    by blast
  note built_by = keep_ok [THEN conjunct2, THEN conjunct2, THEN conjunct2, THEN conjunct2,
                     THEN conjunct2, rule_format, OF run]
  from built_by obtain cl1 cl2 uid where
    reply: "Call_int stub_env
              (trace world0 @ [NewClient_ev (''http://x'' @ ''/xmlrpc/2/common'') (transports world0),
                               NewClient_ev (''http://x'' @ ''/xmlrpc/2/object'') (transports world0)])
              cl1 ''authenticate''
              [VString ''d'', VString ''u'', VString ''k'', VStringMap (Some [])] = Inr uid"
    and built: "stub_connector = \<lparr>URL = ''http://x'', Username = ''u'', APIKey = ''k'', DB = ''d'',
                                   UID = uid, common = Some cl1, models = Some cl2\<rparr>"
    and later: "\<forall>r c' w'. CreateRecord stub_env stub_connector ''crm.lead'' stub_values world0 =
                  Return (r, c', w') \<longrightarrow> UID c' = uid"
    by (elim exE conjE)
  from built have cl1: "cl1 = 0" and uid_stored: "UID stub_connector = uid"
    by (simp_all add: stub_connector_def)
  from reply have seven: "uid = 7"
    by (simp add: stub_env_def)
  from reply cl1 uid_stored
  have f: "Call_int stub_env
       [NewClient_ev ''http://x/xmlrpc/2/common'' 0, NewClient_ev ''http://x/xmlrpc/2/object'' 0]
       0 ''authenticate'' [VString ''d'', VString ''u'', VString ''k'', VStringMap (Some [])]
     = Inr (UID stub_connector)"
    by (simp add: world0_def)
  from uid_stored seven have g: "UID stub_connector = 7"
    by simp
  from b later seven
  have h: "\<exists>c' w'. CreateRecord stub_env stub_connector ''crm.lead'' stub_values world0 =
               Return ((42, None), c', w') \<and> UID c' = 7"
    by blast
  from a' b' c' d' e' run f g h show ?thesis
    by (intro conjI)
qed

end
